theory Spec2Isabelle
  imports Complex_Main "HOL-Library.Product_Lexorder" "HOL-Library.Multiset"
begin

section \<open>Numbers\<close>

text \<open>
  The geodistance functions are idealised over the real numbers: \<^verbatim>\<open>Math.sqrt\<close>,
  \<^verbatim>\<open>Math.sin\<close> and \<^verbatim>\<open>Math.cos\<close> are the real functions and \<^verbatim>\<open>Math.atan2\<close> is written
  out by quadrant. The arithmetic on their results and on the numbers of the reports is
  the double-precision arithmetic of JavaScript: an operation returns the exact result
  rounded to a double. The rounding is the parameter \<open>fl\<close> of every function that does such an
  operation, so that \<open>x * y\<close> of the source is \<open>fl (x * y)\<close> here; nothing is assumed of
  \<open>fl\<close> in the definitions. \<^verbatim>\<open>Math.round\<close> is exact: the nearest integer, a tie going
  up, which is \<^const>\<open>round\<close>. NaN and the infinities are outside the model of the
  arithmetic.
\<close>

definition atan2 :: "real \<Rightarrow> real \<Rightarrow> real" where
  "atan2 y x =
     (if 0 < x then arctan (y / x)
      else if x < 0 then (if 0 \<le> y then arctan (y / x) + pi else arctan (y / x) - pi)
      else if 0 < y then pi / 2
      else if y < 0 then - (pi / 2)
      else 0)"

text \<open>\<^verbatim>\<open>toRad\<close> of src/lib/db.ts, of the first version of routes/checkin.js and of the
  Next.js check-in route: \<^verbatim>\<open>deg * (Math.PI / 180)\<close>.\<close>

definition toRad :: "real \<Rightarrow> real" where
  "toRad deg = deg * (pi / 180)"

text \<open>\<^verbatim>\<open>calculateDistance\<close>: the same text in src/lib/db.ts, in the first version of
  routes/checkin.js and in the Next.js check-in route.\<close>

definition calculateDistance :: "real \<Rightarrow> real \<Rightarrow> real \<Rightarrow> real \<Rightarrow> real" where
  "calculateDistance lat1 lon1 lat2 lon2 =
     (let R = 6371;
          dLat = toRad (lat2 - lat1);
          dLon = toRad (lon2 - lon1);
          a = sin (dLat / 2) * sin (dLat / 2) +
              cos (toRad lat1) * cos (toRad lat2) *
              sin (dLon / 2) * sin (dLon / 2);
          c = 2 * atan2 (sqrt a) (sqrt (1 - a))
      in R * c)"

text \<open>\<^verbatim>\<open>calculateDistanceKm\<close> of the second version of routes/checkin.js, with its own
  \<^verbatim>\<open>toRad = (deg * Math.PI) / 180\<close> and squares written \<^verbatim>\<open>** 2\<close>.\<close>

definition calculateDistanceKm :: "real \<Rightarrow> real \<Rightarrow> real \<Rightarrow> real \<Rightarrow> real" where
  "calculateDistanceKm lat1 lon1 lat2 lon2 =
     (let R = 6371;
          toRad' = (\<lambda>deg. (deg * pi) / 180);
          dLat = toRad' (lat2 - lat1);
          dLon = toRad' (lon2 - lon1);
          a = (sin (dLat / 2))\<^sup>2 +
              cos (toRad' lat1) * cos (toRad' lat2) * (sin (dLon / 2))\<^sup>2;
          c = 2 * atan2 (sqrt a) (sqrt (1 - a))
      in R * c)"

text \<open>\<^verbatim>\<open>Math.round(x * 100) / 100\<close>, the rounding to two decimals used by every caller:
  a multiplication, \<^verbatim>\<open>Math.round\<close>, a division.\<close>

definition round2 :: "(real \<Rightarrow> real) \<Rightarrow> real \<Rightarrow> real" where
  "round2 fl x = fl (real_of_int (round (fl (x * 100))) / 100)"

section \<open>Data model\<close>

text \<open>
  The entities of src/lib/db.ts, which are also the rows of the SQLite tables the Express
  routes query. A timestamp is a number of milliseconds since the epoch (UTC) and a
  calendar day is a number of days since the epoch, so that \<^verbatim>\<open>DATE(checkin_time)\<close> and
  the date part of an ISO string are \<open>date_of\<close>. Coordinates are optional numbers
  (\<open>None\<close> is \<^verbatim>\<open>null\<close> or SQL \<^verbatim>\<open>NULL\<close>).
\<close>

type_synonym timestamp = int
type_synonym day = int

definition date_of :: "timestamp \<Rightarrow> day" where
  "date_of t = t div 86400000"

definition at_time :: "day \<Rightarrow> int \<Rightarrow> int \<Rightarrow> timestamp" where
  "at_time d h m = ((d * 24 + h) * 60 + m) * 60000"

datatype role = Employee | Manager

datatype checkin_status = CheckedIn | CheckedOut

record User =
  u_id :: int
  u_name :: string
  u_email :: string
  u_password :: string
  u_role :: role
  u_manager_id :: "int option"

record Client =
  cl_id :: int
  cl_name :: string
  cl_address :: string
  cl_latitude :: "real option"
  cl_longitude :: "real option"

record EmployeeClient =
  ec_id :: int
  ec_employee_id :: int
  ec_client_id :: int
  ec_assigned_date :: string

record Checkin =
  ch_id :: int
  ch_employee_id :: int
  ch_client_id :: int
  ch_checkin_time :: timestamp
  ch_checkout_time :: "timestamp option"
  ch_latitude :: "real option"
  ch_longitude :: "real option"
  ch_distance_from_client :: "real option"
  ch_notes :: "string option"
  ch_status :: checkin_status

record store =
  users :: "User list"
  clients :: "Client list"
  employeeClients :: "EmployeeClient list"
  checkins :: "Checkin list"

text \<open>The seed data of src/lib/db.ts; 19737 is the day 2024-01-15.\<close>

definition seed_users :: "User list" where
  "seed_users =
    [\<lparr>u_id = 1, u_name = ''Amit Sharma'', u_email = ''manager@unolo.com'',
      u_password = ''password123'', u_role = Manager, u_manager_id = None\<rparr>,
     \<lparr>u_id = 2, u_name = ''Rahul Kumar'', u_email = ''rahul@unolo.com'',
      u_password = ''password123'', u_role = Employee, u_manager_id = Some 1\<rparr>,
     \<lparr>u_id = 3, u_name = ''Priya Singh'', u_email = ''priya@unolo.com'',
      u_password = ''password123'', u_role = Employee, u_manager_id = Some 1\<rparr>,
     \<lparr>u_id = 4, u_name = ''Vikram Patel'', u_email = ''vikram@unolo.com'',
      u_password = ''password123'', u_role = Employee, u_manager_id = Some 1\<rparr>]"

definition seed_clients :: "Client list" where
  "seed_clients =
    [\<lparr>cl_id = 1, cl_name = ''ABC Corp'', cl_address = ''Cyber City, Gurugram'',
      cl_latitude = Some 28.4946, cl_longitude = Some 77.0887\<rparr>,
     \<lparr>cl_id = 2, cl_name = ''XYZ Ltd'', cl_address = ''Sector 44, Gurugram'',
      cl_latitude = Some 28.4595, cl_longitude = Some 77.0266\<rparr>,
     \<lparr>cl_id = 3, cl_name = ''Tech Solutions'', cl_address = ''DLF Phase 3, Gurugram'',
      cl_latitude = Some 28.4947, cl_longitude = Some 77.0952\<rparr>,
     \<lparr>cl_id = 4, cl_name = ''Global Services'', cl_address = ''Udyog Vihar, Gurugram'',
      cl_latitude = Some 28.5011, cl_longitude = Some 77.0838\<rparr>,
     \<lparr>cl_id = 5, cl_name = ''Innovate Inc'', cl_address = ''Sector 18, Noida'',
      cl_latitude = Some 28.5707, cl_longitude = Some 77.3219\<rparr>]"

definition seed_employeeClients :: "EmployeeClient list" where
  "seed_employeeClients =
    [\<lparr>ec_id = 1, ec_employee_id = 2, ec_client_id = 1, ec_assigned_date = ''2024-01-01''\<rparr>,
     \<lparr>ec_id = 2, ec_employee_id = 2, ec_client_id = 2, ec_assigned_date = ''2024-01-01''\<rparr>,
     \<lparr>ec_id = 3, ec_employee_id = 2, ec_client_id = 3, ec_assigned_date = ''2024-01-15''\<rparr>,
     \<lparr>ec_id = 4, ec_employee_id = 3, ec_client_id = 2, ec_assigned_date = ''2024-01-01''\<rparr>,
     \<lparr>ec_id = 5, ec_employee_id = 3, ec_client_id = 4, ec_assigned_date = ''2024-01-01''\<rparr>,
     \<lparr>ec_id = 6, ec_employee_id = 4, ec_client_id = 1, ec_assigned_date = ''2024-01-10''\<rparr>,
     \<lparr>ec_id = 7, ec_employee_id = 4, ec_client_id = 5, ec_assigned_date = ''2024-01-10''\<rparr>]"

definition seed_checkins :: "Checkin list" where
  "seed_checkins =
    [\<lparr>ch_id = 1, ch_employee_id = 2, ch_client_id = 1,
      ch_checkin_time = at_time 19737 9 15, ch_checkout_time = Some (at_time 19737 11 30),
      ch_latitude = Some 28.4946, ch_longitude = Some 77.0887,
      ch_distance_from_client = Some 0.05, ch_notes = Some ''Regular visit'',
      ch_status = CheckedOut\<rparr>,
     \<lparr>ch_id = 2, ch_employee_id = 2, ch_client_id = 2,
      ch_checkin_time = at_time 19737 12 0, ch_checkout_time = Some (at_time 19737 14 0),
      ch_latitude = Some 28.4595, ch_longitude = Some 77.0266,
      ch_distance_from_client = Some 0.02, ch_notes = Some ''Product demo'',
      ch_status = CheckedOut\<rparr>,
     \<lparr>ch_id = 3, ch_employee_id = 2, ch_client_id = 3,
      ch_checkin_time = at_time 19737 15 0, ch_checkout_time = Some (at_time 19737 17 30),
      ch_latitude = Some 28.4947, ch_longitude = Some 77.0952,
      ch_distance_from_client = Some 0.03, ch_notes = Some ''Follow up meeting'',
      ch_status = CheckedOut\<rparr>,
     \<lparr>ch_id = 4, ch_employee_id = 3, ch_client_id = 2,
      ch_checkin_time = at_time 19737 9 30, ch_checkout_time = Some (at_time 19737 12 0),
      ch_latitude = Some 28.4595, ch_longitude = Some 77.0266,
      ch_distance_from_client = Some 0.01, ch_notes = Some ''Contract discussion'',
      ch_status = CheckedOut\<rparr>,
     \<lparr>ch_id = 5, ch_employee_id = 3, ch_client_id = 4,
      ch_checkin_time = at_time 19737 13 0, ch_checkout_time = Some (at_time 19737 16 0),
      ch_latitude = Some 28.5011, ch_longitude = Some 77.0838,
      ch_distance_from_client = Some 0.04, ch_notes = Some ''New requirements'',
      ch_status = CheckedOut\<rparr>]"

definition seed :: store where
  "seed = \<lparr>users = seed_users, clients = seed_clients,
            employeeClients = seed_employeeClients, checkins = seed_checkins\<rparr>"

section \<open>The in-memory store of src/lib/db.ts\<close>

text \<open>\<^verbatim>\<open>Array.prototype.find\<close> is \<^const>\<open>find\<close>; a mutation of the found object is an
  update of the first element that satisfies the test.\<close>

fun update_first :: "('a \<Rightarrow> bool) \<Rightarrow> ('a \<Rightarrow> 'a) \<Rightarrow> 'a list \<Rightarrow> 'a list" where
  "update_first P f [] = []"
| "update_first P f (x # xs) = (if P x then f x # xs else x # update_first P f xs)"

definition users_findByManagerId :: "store \<Rightarrow> int \<Rightarrow> User list" where
  "users_findByManagerId s managerId = filter (\<lambda>u. u_manager_id u = Some managerId) (users s)"

definition clients_findById :: "store \<Rightarrow> int \<Rightarrow> Client option" where
  "clients_findById s i = find (\<lambda>c. cl_id c = i) (clients s)"

definition employeeClients_isAssigned :: "store \<Rightarrow> int \<Rightarrow> int \<Rightarrow> bool" where
  "employeeClients_isAssigned s employeeId clientId =
     list_ex (\<lambda>ec. ec_employee_id ec = employeeId \<and> ec_client_id ec = clientId)
       (employeeClients s)"

definition checkins_getActiveByEmployeeId :: "store \<Rightarrow> int \<Rightarrow> Checkin option" where
  "checkins_getActiveByEmployeeId s employeeId =
     find (\<lambda>c. ch_employee_id c = employeeId \<and> ch_status c = CheckedIn) (checkins s)"

text \<open>\<^verbatim>\<open>db.checkins.create\<close>: the argument has every field but the id, which is the
  length of the array plus one; the \<open>ch_id\<close> of the argument is ignored.\<close>

definition checkins_create :: "Checkin \<Rightarrow> store \<Rightarrow> store \<times> Checkin" where
  "checkins_create checkin s =
     (let newCheckin = checkin\<lparr>ch_id := int (length (checkins s)) + 1\<rparr>
      in (s\<lparr>checkins := checkins s @ [newCheckin]\<rparr>, newCheckin))"

text \<open>\<^verbatim>\<open>db.checkins.checkout\<close>; \<open>now\<close> is \<^verbatim>\<open>new Date().toISOString()\<close>.\<close>

definition checkins_checkout :: "timestamp \<Rightarrow> int \<Rightarrow> store \<Rightarrow> store \<times> Checkin option" where
  "checkins_checkout now checkinId s =
     (case find (\<lambda>c. ch_id c = checkinId) (checkins s) of
        Some checkin \<Rightarrow>
          (s\<lparr>checkins := update_first (\<lambda>c. ch_id c = checkinId)
                (\<lambda>c. c\<lparr>ch_checkout_time := Some now, ch_status := CheckedOut\<rparr>) (checkins s)\<rparr>,
           Some (checkin\<lparr>ch_checkout_time := Some now, ch_status := CheckedOut\<rparr>))
      | None \<Rightarrow> (s, None))"

section \<open>Requests and responses\<close>

text \<open>
  A response is its HTTP status with either the message of a failure or the payload of a
  success. In a JSON body, \<^verbatim>\<open>client_id\<close> is an integer or \<open>None\<close> (absent or null) and
  \<^verbatim>\<open>notes\<close> is a string or \<open>None\<close>; a coordinate is absent (\<^verbatim>\<open>undefined\<close> after the
  destructuring), \<^verbatim>\<open>null\<close>, or a number. Values of other JSON types are outside the model.
\<close>

datatype 'a response =
    Failure (http_status: nat) (failure_message: string)
  | Success (http_status: nat) (payload: 'a)

datatype js_number = JUndefined | JNull | JNumber real

record checkin_body =
  b_client_id :: "int option"
  b_latitude :: js_number
  b_longitude :: js_number
  b_notes :: "string option"

text \<open>JavaScript truthiness: of a body coordinate (\<^verbatim>\<open>undefined\<close>, \<^verbatim>\<open>null\<close> and the number 0
  are falsy), and of a stored coordinate (\<^verbatim>\<open>null\<close> and 0 are falsy).\<close>

definition truthy_number :: "js_number \<Rightarrow> bool" where
  "truthy_number v = (case v of JNumber x \<Rightarrow> x \<noteq> 0 | _ \<Rightarrow> False)"

definition truthy :: "real option \<Rightarrow> bool" where
  "truthy v = (case v of None \<Rightarrow> False | Some x \<Rightarrow> x \<noteq> 0)"

text \<open>\<^verbatim>\<open>notes || null\<close>: the empty string is falsy.\<close>

definition notes_or_null :: "string option \<Rightarrow> string option" where
  "notes_or_null notes = (case notes of None \<Rightarrow> None | Some n \<Rightarrow> if n = [] then None else Some n)"

text \<open>\<^verbatim>\<open>latitude || null\<close>.\<close>

definition number_or_null :: "js_number \<Rightarrow> real option" where
  "number_or_null v = (case v of JNumber x \<Rightarrow> if x \<noteq> 0 then Some x else None | _ \<Rightarrow> None)"

definition far_warning :: string where
  "far_warning = ''You are far from the client location''"

record checkin_created =
  r_id :: int
  r_message :: string
  r_distance_from_client :: "real option"
  r_distance_warning :: "string option"

section \<open>The Express routes of backend/routes/checkin.js\<close>

text \<open>
  The file holds two versions of the router. The handlers run after \<^verbatim>\<open>authenticateToken\<close>,
  so the authenticated user id is a parameter. A statement that runs is a list operation
  on the tables of the store.
\<close>

text \<open>
  \<^verbatim>\<open>pool.execute\<close> of the database module: \<^verbatim>\<open>db.prepare(sql)\<close>, then \<^verbatim>\<open>all\<close> or \<^verbatim>\<open>run\<close>
  with the parameters; an exception of the driver rejects the promise, and the handler
  that awaits it goes to its \<^verbatim>\<open>catch\<close> branch. The driver is better-sqlite3, whose SQLite
  is built with \<^verbatim>\<open>SQLITE_DQS=0\<close>: a token in double quotes is an identifier and never a
  string literal, so a statement that writes a status in double quotes
  (\<^verbatim>\<open>status = "checked_in"\<close>, \<^verbatim>\<open>status = "checked_out"\<close>) names a column that the table
  does not have and \<^verbatim>\<open>prepare\<close> throws. The driver also refuses to bind \<^verbatim>\<open>undefined\<close>.
  The first argument says that the driver refuses the statement, the second is the result
  of the statement when it runs; \<open>None\<close> is the rejected promise.
\<close>

definition execute :: "bool \<Rightarrow> 'a \<Rightarrow> 'a option" where
  "execute refused result = (if refused then None else Some result)"

text \<open>\<^verbatim>\<open>ORDER BY checkin_time DESC LIMIT 1\<close>: the row with the latest check-in time, the
  first such row of the table when several share it.\<close>

fun most_recent :: "Checkin list \<Rightarrow> Checkin option" where
  "most_recent [] = None"
| "most_recent (r # rs) =
     (case most_recent rs of
        None \<Rightarrow> Some r
      | Some m \<Rightarrow> if ch_checkin_time r < ch_checkin_time m then Some m else Some r)"

text \<open>Modelled from the spec: the schema of the \<^verbatim>\<open>checkins\<close> table is not among the
  sources. An inserted row gets the next row id (the largest id plus one); a column the
  INSERT leaves out takes its default, the current timestamp for \<^verbatim>\<open>checkin_time\<close>
  (spec 4.2: "checkin_time = current timestamp") and NULL for \<^verbatim>\<open>checkout_time\<close>.\<close>

definition next_rowid :: "Checkin list \<Rightarrow> int" where
  "next_rowid rows = fold max (map ch_id rows) 0 + 1"

definition insert_checkin ::
  "timestamp \<Rightarrow> int \<Rightarrow> int \<Rightarrow> real option \<Rightarrow> real option \<Rightarrow> real option \<Rightarrow> string option
     \<Rightarrow> store \<Rightarrow> store \<times> int" where
  "insert_checkin now employee_id client_id latitude longitude distance notes s =
     (let insertId = next_rowid (checkins s);
          row = \<lparr>ch_id = insertId, ch_employee_id = employee_id, ch_client_id = client_id,
                 ch_checkin_time = now, ch_checkout_time = None,
                 ch_latitude = latitude, ch_longitude = longitude,
                 ch_distance_from_client = distance, ch_notes = notes,
                 ch_status = CheckedIn\<rparr>
      in (s\<lparr>checkins := checkins s @ [row]\<rparr>, insertId))"

subsection \<open>First version\<close>

text \<open>Lines 80-100: the distance and the warning, from the body's coordinates and the
  rows of \<^verbatim>\<open>SELECT latitude, longitude FROM clients WHERE id = ?\<close>. \<^verbatim>\<open>parseFloat\<close> of a
  truthy number is the number.\<close>

definition distance_v1 ::
  "(real \<Rightarrow> real) \<Rightarrow> checkin_body \<Rightarrow> Client list \<Rightarrow> real option \<times> string option" where
  "distance_v1 fl body clientRows =
     (case clientRows of
        [] \<Rightarrow> (None, None)
      | client # _ \<Rightarrow>
          if truthy_number (b_latitude body) \<and> truthy_number (b_longitude body) then
            (case (b_latitude body, b_longitude body, cl_latitude client, cl_longitude client) of
               (JNumber latitude, JNumber longitude, Some clat, Some clon) \<Rightarrow>
                 if clat \<noteq> 0 \<and> clon \<noteq> 0 then
                   (let distanceFromClient =
                          round2 fl (calculateDistance latitude longitude clat clon)
                    in (Some distanceFromClient,
                        if distanceFromClient > 0.5 then Some far_warning else None))
                 else (None, None)
             | _ \<Rightarrow> (None, None))
          else (None, None))"

text \<open>The value the INSERT of line 107 binds for a coordinate of the body.\<close>

definition bound_number :: "js_number \<Rightarrow> real option" where
  "bound_number v = (case v of JNumber x \<Rightarrow> Some x | _ \<Rightarrow> None)"

text \<open>\<^verbatim>\<open>router.post('/')\<close>, lines 42-123. The SELECT of line 63 has the status in double
  quotes; the INSERT binds the body's coordinates as they are.\<close>

definition post_checkin_v1 ::
  "(real \<Rightarrow> real) \<Rightarrow> timestamp \<Rightarrow> int \<Rightarrow> checkin_body \<Rightarrow> store
     \<Rightarrow> store \<times> checkin_created response" where
  "post_checkin_v1 fl now userId body s =
     (case b_client_id body of
        None \<Rightarrow> (s, Failure 400 ''Client ID is required'')
      | Some client_id \<Rightarrow>
          if client_id = 0 then (s, Failure 400 ''Client ID is required'')
          else
            (case execute False
                    (filter (\<lambda>ec. ec_employee_id ec = userId \<and> ec_client_id ec = client_id)
                       (employeeClients s)) of
               None \<Rightarrow> (s, Failure 500 ''Check-in failed'')
             | Some assignments \<Rightarrow>
                 if assignments = []
                 then (s, Failure 403 ''You are not assigned to this client'')
                 else
                   (case execute True
                           (filter (\<lambda>c. ch_employee_id c = userId \<and> ch_status c = CheckedIn)
                              (checkins s)) of
                      None \<Rightarrow> (s, Failure 500 ''Check-in failed'')
                    | Some activeCheckins \<Rightarrow>
                        if activeCheckins \<noteq> []
                        then (s, Failure 400
                                   ''You already have an active check-in. Please checkout first.'')
                        else
                          (case execute False (filter (\<lambda>c. cl_id c = client_id) (clients s)) of
                             None \<Rightarrow> (s, Failure 500 ''Check-in failed'')
                           | Some clientRows \<Rightarrow>
                               (let (distanceFromClient, distanceWarning) =
                                      distance_v1 fl body clientRows
                                in case execute
                                          (b_latitude body = JUndefined
                                             \<or> b_longitude body = JUndefined)
                                          (insert_checkin now userId client_id
                                             (bound_number (b_latitude body))
                                             (bound_number (b_longitude body))
                                             distanceFromClient (notes_or_null (b_notes body)) s) of
                                     None \<Rightarrow> (s, Failure 500 ''Check-in failed'')
                                   | Some (s', insertId) \<Rightarrow>
                                       (s', Success 201
                                          \<lparr>r_id = insertId,
                                           r_message = ''Checked in successfully'',
                                           r_distance_from_client = distanceFromClient,
                                           r_distance_warning = distanceWarning\<rparr>))))))"

text \<open>\<^verbatim>\<open>router.put('/checkout')\<close>, lines 126-148. The SELECT has no condition on the
  status; the UPDATE of line 139, which would change every row with the selected id, has
  the status in double quotes.\<close>

definition checkout_v1 :: "timestamp \<Rightarrow> int \<Rightarrow> store \<Rightarrow> store \<times> string response" where
  "checkout_v1 now userId s =
     (case execute False
             (case most_recent (filter (\<lambda>c. ch_employee_id c = userId) (checkins s)) of
                None \<Rightarrow> [] | Some r \<Rightarrow> [r]) of
        None \<Rightarrow> (s, Failure 500 ''Checkout failed'')
      | Some activeCheckins \<Rightarrow>
          (case activeCheckins of
             [] \<Rightarrow> (s, Failure 404 ''No active check-in found'')
           | active # _ \<Rightarrow>
               (case execute True
                       (s\<lparr>checkins :=
                            map (\<lambda>c. if ch_id c = ch_id active
                                      then c\<lparr>ch_checkout_time := Some now, ch_status := CheckedOut\<rparr>
                                      else c) (checkins s)\<rparr>) of
                  None \<Rightarrow> (s, Failure 500 ''Checkout failed'')
                | Some s' \<Rightarrow> (s', Success 200 ''Checked out successfully''))))"

subsection \<open>Second version\<close>

text \<open>
  No statement of the second version has a token in double quotes (the status is a bound
  parameter) and every bound value is a number, a string or \<^verbatim>\<open>null\<close>, so each
  \<^verbatim>\<open>pool.execute\<close> resolves and the \<^verbatim>\<open>catch\<close> branches (status 500) are not taken.
  \<^verbatim>\<open>parseFloat\<close> of a number is the number and of \<^verbatim>\<open>null\<close> is NaN.
\<close>

datatype js_float = NaN | Finite real

definition parseFloat :: "js_number \<Rightarrow> js_float" where
  "parseFloat v = (case v of JNumber x \<Rightarrow> Finite x | _ \<Rightarrow> NaN)"

definition isValidLatitude :: "js_float \<Rightarrow> bool" where
  "isValidLatitude v = (case v of NaN \<Rightarrow> False | Finite x \<Rightarrow> - 90 \<le> x \<and> x \<le> 90)"

definition isValidLongitude :: "js_float \<Rightarrow> bool" where
  "isValidLongitude v = (case v of NaN \<Rightarrow> False | Finite x \<Rightarrow> - 180 \<le> x \<and> x \<le> 180)"

definition getMostRecentActiveCheckin :: "store \<Rightarrow> int \<Rightarrow> Checkin list" where
  "getMostRecentActiveCheckin s employeeId =
     (case most_recent
             (filter (\<lambda>c. ch_employee_id c = employeeId \<and> ch_status c = CheckedIn) (checkins s)) of
        None \<Rightarrow> []
      | Some r \<Rightarrow> [r])"

record joined_checkin =
  jc_checkin :: Checkin
  jc_client_name :: "string option"
  jc_client_address :: "string option"

text \<open>\<^verbatim>\<open>SELECT ch.*, c.name, c.address FROM checkins ch LEFT JOIN clients c
  ON ch.client_id = c.id WHERE ch.id = ? LIMIT 1\<close>.\<close>

definition select_checkin_by_id :: "store \<Rightarrow> int \<Rightarrow> joined_checkin list" where
  "select_checkin_by_id s i =
     take 1 (concat (map
       (\<lambda>ch. case filter (\<lambda>c. cl_id c = ch_client_id ch) (clients s) of
               [] \<Rightarrow> [\<lparr>jc_checkin = ch, jc_client_name = None, jc_client_address = None\<rparr>]
             | cs \<Rightarrow> map (\<lambda>c. \<lparr>jc_checkin = ch, jc_client_name = Some (cl_name c),
                               jc_client_address = Some (cl_address c)\<rparr>) cs)
       (filter (\<lambda>ch. ch_id ch = i) (checkins s))))"

text \<open>Lines 328-345: the presence tests are comparisons with \<^verbatim>\<open>null\<close>; \<open>lat\<close> and \<open>lng\<close>
  are \<open>None\<close> for \<^verbatim>\<open>null\<close>. A NaN does not pass the validation of lines 293-298 and never
  comes here.\<close>

definition distance_v2 ::
  "(real \<Rightarrow> real) \<Rightarrow> js_float option \<Rightarrow> js_float option \<Rightarrow> Client list
     \<Rightarrow> real option \<times> string option" where
  "distance_v2 fl lat lng clientRows =
     (case (clientRows, lat, lng) of
        (client # _, Some (Finite lat'), Some (Finite lng')) \<Rightarrow>
          (case (cl_latitude client, cl_longitude client) of
             (Some clientLat, Some clientLng) \<Rightarrow>
               (let distanceFromClient =
                      round2 fl (calculateDistanceKm lat' lng' clientLat clientLng)
                in (Some distanceFromClient,
                    if distanceFromClient > 0.5 then Some far_warning else None))
           | _ \<Rightarrow> (None, None))
      | _ \<Rightarrow> (None, None))"

text \<open>The value the INSERT of line 352 binds for \<open>lat\<close> and \<open>lng\<close>.\<close>

definition bound_float :: "js_float option \<Rightarrow> real option" where
  "bound_float v = (case v of Some (Finite x) \<Rightarrow> Some x | _ \<Rightarrow> None)"

record checkin_created_v2 =
  r2_data :: "joined_checkin + int"
  r2_message :: string
  r2_distance_warning :: "string option"

text \<open>\<^verbatim>\<open>router.post('/')\<close>, lines 276-383. \<^verbatim>\<open>ROLLBACK\<close> follows no write, so it
  returns the store as it was.\<close>

definition post_checkin_v2 ::
  "(real \<Rightarrow> real) \<Rightarrow> timestamp \<Rightarrow> int \<Rightarrow> checkin_body \<Rightarrow> store
     \<Rightarrow> store \<times> checkin_created_v2 response" where
  "post_checkin_v2 fl now employeeId body s =
     (case b_client_id body of
        None \<Rightarrow> (s, Failure 400 ''client_id is required'')
      | Some client_id \<Rightarrow>
          (let latitude = b_latitude body; longitude = b_longitude body;
               lat = (if latitude \<noteq> JUndefined then Some (parseFloat latitude) else None);
               lng = (if longitude \<noteq> JUndefined then Some (parseFloat longitude) else None)
           in
           if client_id = 0 then (s, Failure 400 ''client_id is required'')
           else if (latitude \<noteq> JUndefined \<or> longitude \<noteq> JUndefined) \<and> (lat = None \<or> lng = None)
           then (s, Failure 400 ''latitude and longitude must be valid numbers'')
           else if (case lat of None \<Rightarrow> False | Some v \<Rightarrow> \<not> isValidLatitude v)
           then (s, Failure 400 ''latitude out of range (-90 to 90)'')
           else if (case lng of None \<Rightarrow> False | Some v \<Rightarrow> \<not> isValidLongitude v)
           then (s, Failure 400 ''longitude out of range (-180 to 180)'')
           else
             (let safeNotes = map_option (take 2000) (b_notes body) in
              if filter (\<lambda>ec. ec_employee_id ec = employeeId \<and> ec_client_id ec = client_id)
                   (employeeClients s) = []
              then (s, Failure 403 ''You are not assigned to this client'')
              else if getMostRecentActiveCheckin s employeeId \<noteq> []
              then (s, Failure 400
                         ''You already have an active check-in. Please checkout first.'')
              else
                (let (distanceFromClient, distanceWarning) =
                       distance_v2 fl lat lng (filter (\<lambda>c. cl_id c = client_id) (clients s));
                     (s', newId) =
                       insert_checkin now employeeId client_id (bound_float lat)
                         (bound_float lng) distanceFromClient safeNotes s
                 in (s', Success 201
                       \<lparr>r2_data = (case select_checkin_by_id s' newId of
                                     row # _ \<Rightarrow> Inl row | [] \<Rightarrow> Inr newId),
                        r2_message = ''Checked in successfully'',
                        r2_distance_warning = distanceWarning\<rparr>)))))"

text \<open>\<^verbatim>\<open>router.put('/checkout')\<close>, lines 389-434.\<close>

definition checkout_v2 ::
  "timestamp \<Rightarrow> int \<Rightarrow> store \<Rightarrow> store \<times> ((joined_checkin + int) \<times> string) response" where
  "checkout_v2 now employeeId s =
     (case getMostRecentActiveCheckin s employeeId of
        [] \<Rightarrow> (s, Failure 404 ''No active check-in found'')
      | checkin # _ \<Rightarrow>
          (let s' = s\<lparr>checkins :=
                        map (\<lambda>c. if ch_id c = ch_id checkin \<and> ch_status c = CheckedIn
                                  then c\<lparr>ch_checkout_time := Some now, ch_status := CheckedOut\<rparr>
                                  else c) (checkins s)\<rparr>
           in (s', Success 200
                 ((case select_checkin_by_id s' (ch_id checkin) of
                     row # _ \<Rightarrow> Inl row | [] \<Rightarrow> Inr (ch_id checkin)),
                  ''Checked out successfully''))))"

section \<open>The Next.js routes\<close>

text \<open>
  The handlers authenticate inside, from the \<^verbatim>\<open>authorization\<close> header (\<open>None\<close> when the
  request has none). \<^verbatim>\<open>verifyToken\<close> of src/lib/auth.ts is an \<^verbatim>\<open>async\<close> function and the
  handlers call it without \<^verbatim>\<open>await\<close>: whatever the token, \<^verbatim>\<open>user\<close> is a promise, which
  is truthy, so the test \<^verbatim>\<open>!user\<close> never answers, and \<^verbatim>\<open>user.id\<close> is \<^verbatim>\<open>undefined\<close>,
  \<open>None\<close> here.
\<close>

datatype js_user = Promise

definition verifyToken :: "string \<Rightarrow> js_user option" where
  "verifyToken token = Some Promise"

definition user_id :: "js_user \<Rightarrow> int option" where
  "user_id user = (case user of Promise \<Rightarrow> None)"

text \<open>\<^verbatim>\<open>authHeader.split(' ')[1]\<close> of a header that starts with \<^verbatim>\<open>'Bearer '\<close>.\<close>

definition bearer_token :: "string \<Rightarrow> string" where
  "bearer_token authHeader = takeWhile (\<lambda>c. c \<noteq> CHR '' '') (drop 7 authHeader)"

text \<open>
  The handlers import \<^verbatim>\<open>db\<close> from src/lib/db.ts. That object has the four members
  \<^verbatim>\<open>users\<close>, \<^verbatim>\<open>clients\<close>, \<^verbatim>\<open>employeeClients\<close> and \<^verbatim>\<open>checkins\<close>, each an object of
  methods, and no other. The handlers call \<^verbatim>\<open>db.getActiveCheckin\<close>, \<^verbatim>\<open>db.getClientById\<close>,
  \<^verbatim>\<open>db.createCheckin\<close> and \<^verbatim>\<open>db.checkout\<close>: the callee is \<^verbatim>\<open>undefined\<close> and the call
  throws a TypeError, whatever the arguments and the store.
\<close>

datatype js_error = TypeError

record new_checkin =
  nc_employee_id :: "int option"
  nc_client_id :: int
  nc_latitude :: "real option"
  nc_longitude :: "real option"
  nc_distance_from_client :: "real option"
  nc_notes :: "string option"

definition db_getActiveCheckin :: "store \<Rightarrow> int option \<Rightarrow> js_error + Checkin option" where
  "db_getActiveCheckin s userId = Inl TypeError"

definition db_getClientById :: "store \<Rightarrow> int \<Rightarrow> js_error + Client option" where
  "db_getClientById s clientId = Inl TypeError"

definition db_createCheckin :: "store \<Rightarrow> new_checkin \<Rightarrow> js_error + store \<times> Checkin" where
  "db_createCheckin s checkin = Inl TypeError"

definition db_checkout :: "store \<Rightarrow> int \<Rightarrow> js_error + store" where
  "db_checkout s checkinId = Inl TypeError"

text \<open>The checkout route: \<^verbatim>\<open>POST\<close>, lines 5-47 of the route file. An exception goes to
  the \<^verbatim>\<open>catch\<close> of line 40.\<close>

definition POST_checkout :: "string option \<Rightarrow> store \<Rightarrow> store \<times> string response" where
  "POST_checkout authorization s =
     (case authorization of
        None \<Rightarrow> (s, Failure 401 ''Authorization required'')
      | Some authHeader \<Rightarrow>
          if authHeader = [] \<or> take 7 authHeader \<noteq> ''Bearer ''
          then (s, Failure 401 ''Authorization required'')
          else
            (case verifyToken (bearer_token authHeader) of
               None \<Rightarrow> (s, Failure 401 ''Invalid token'')
             | Some user \<Rightarrow>
                 (case db_getActiveCheckin s (user_id user) of
                    Inl error \<Rightarrow> (s, Failure 500 ''Internal server error'')
                  | Inr None \<Rightarrow> (s, Failure 400 ''No active check-in found to checkout from'')
                  | Inr (Some activeCheckin) \<Rightarrow>
                      (case db_checkout s (ch_id activeCheckin) of
                         Inl error \<Rightarrow> (s, Failure 500 ''Internal server error'')
                       | Inr s' \<Rightarrow> (s', Success 200 ''Checked out successfully'')))))"

text \<open>Lines 190-206 of the check-in route.\<close>

definition distance_next ::
  "(real \<Rightarrow> real) \<Rightarrow> checkin_body \<Rightarrow> Client \<Rightarrow> real option \<times> string option" where
  "distance_next fl body client =
     (if truthy_number (b_latitude body) \<and> truthy_number (b_longitude body)
         \<and> truthy (cl_latitude client) \<and> truthy (cl_longitude client) then
        (case (b_latitude body, b_longitude body, cl_latitude client, cl_longitude client) of
           (JNumber latitude, JNumber longitude, Some clat, Some clon) \<Rightarrow>
             (let distanceFromClient = round2 fl (calculateDistance latitude longitude clat clon)
              in (Some distanceFromClient,
                  if distanceFromClient > 0.5 then Some far_warning else None))
         | _ \<Rightarrow> (None, None))
      else (None, None))"

text \<open>Lines 144 and 151: a coordinate that is not \<^verbatim>\<open>undefined\<close> must be a number within
  the bounds; \<^verbatim>\<open>typeof null\<close> is not \<^verbatim>\<open>'number'\<close>.\<close>

definition invalid_coordinate :: "real \<Rightarrow> js_number \<Rightarrow> bool" where
  "invalid_coordinate bound v =
     (case v of JUndefined \<Rightarrow> False | JNull \<Rightarrow> True | JNumber x \<Rightarrow> x < - bound \<or> x > bound)"

text \<open>The check-in route: \<^verbatim>\<open>POST\<close>, lines 108-233 of the route file. An exception goes
  to the \<^verbatim>\<open>catch\<close> of line 226.\<close>

definition POST_checkin ::
  "(real \<Rightarrow> real) \<Rightarrow> string option \<Rightarrow> checkin_body \<Rightarrow> store
     \<Rightarrow> store \<times> checkin_created response" where
  "POST_checkin fl authorization body s =
     (case authorization of
        None \<Rightarrow> (s, Failure 401 ''Authorization required'')
      | Some authHeader \<Rightarrow>
          if authHeader = [] \<or> take 7 authHeader \<noteq> ''Bearer ''
          then (s, Failure 401 ''Authorization required'')
          else
            (case verifyToken (bearer_token authHeader) of
               None \<Rightarrow> (s, Failure 401 ''Invalid token'')
             | Some user \<Rightarrow>
                 (case b_client_id body of
                    None \<Rightarrow> (s, Failure 400 ''Please select a client before checking in'')
                  | Some client_id \<Rightarrow>
                      if client_id = 0
                      then (s, Failure 400 ''Please select a client before checking in'')
                      else if client_id < 1 then (s, Failure 400 ''Invalid client selection'')
                      else if invalid_coordinate 90 (b_latitude body)
                      then (s, Failure 400
                                 ''Invalid latitude value. Must be between -90 and 90'')
                      else if invalid_coordinate 180 (b_longitude body)
                      then (s, Failure 400
                                 ''Invalid longitude value. Must be between -180 and 180'')
                      else if (case b_notes body of None \<Rightarrow> False
                               | Some notes \<Rightarrow> length notes > 500)
                      then (s, Failure 400 ''Notes cannot exceed 500 characters'')
                      else
                        (case db_getActiveCheckin s (user_id user) of
                           Inl error \<Rightarrow> (s, Failure 500 ''Internal server error'')
                         | Inr (Some activeCheckin) \<Rightarrow>
                             (s, Failure 400
                                   ''You already have an active check-in. Please checkout first.'')
                         | Inr None \<Rightarrow>
                             (case db_getClientById s client_id of
                                Inl error \<Rightarrow> (s, Failure 500 ''Internal server error'')
                              | Inr None \<Rightarrow> (s, Failure 400 ''Selected client does not exist'')
                              | Inr (Some client) \<Rightarrow>
                                  (let (distanceFromClient, distanceWarning) =
                                         distance_next fl body client
                                   in case db_createCheckin s
                                             \<lparr>nc_employee_id = user_id user,
                                              nc_client_id = client_id,
                                              nc_latitude = number_or_null (b_latitude body),
                                              nc_longitude = number_or_null (b_longitude body),
                                              nc_distance_from_client = distanceFromClient,
                                              nc_notes = notes_or_null (b_notes body)\<rparr> of
                                        Inl error \<Rightarrow> (s, Failure 500 ''Internal server error'')
                                      | Inr (s', checkin) \<Rightarrow>
                                          (s', Success 201
                                             \<lparr>r_id = ch_id checkin,
                                              r_message = ''Checked in successfully'',
                                              r_distance_from_client = distanceFromClient,
                                              r_distance_warning = distanceWarning\<rparr>)))))))"

section \<open>Properties of the check-in state machine: definitions\<close>

text \<open>What a checkout may change: the three other tables are as before, and every check-in
  row is either as before or, if it is one of the rows \<open>acted\<close> on, as before but for
  \<open>checkout_time = now\<close> and \<open>status = checked_out\<close>.\<close>

definition checkout_frame :: "timestamp \<Rightarrow> (Checkin \<Rightarrow> bool) \<Rightarrow> store \<Rightarrow> store \<Rightarrow> bool" where
  "checkout_frame now acted s s' =
     (users s' = users s \<and> clients s' = clients s \<and> employeeClients s' = employeeClients s
      \<and> list_all2
            (\<lambda>c c'. c' = c \<or>
               (acted c \<and> c' = c\<lparr>ch_checkout_time := Some now, ch_status := CheckedOut\<rparr>))
            (checkins s) (checkins s'))"

text \<open>The record a checkout makes of a record: the same but for the checkout time and the
  status.\<close>

definition checked_out :: "timestamp \<Rightarrow> Checkin \<Rightarrow> Checkin" where
  "checked_out now c = c\<lparr>ch_checkout_time := Some now, ch_status := CheckedOut\<rparr>"

text \<open>The number of check-ins of an employee with status \<open>checked_in\<close>.\<close>

definition active_count :: "store \<Rightarrow> int \<Rightarrow> nat" where
  "active_count s e =
     length (filter (\<lambda>c. ch_employee_id c = e \<and> ch_status c = CheckedIn) (checkins s))"

text \<open>The states of the store reachable from \<open>s0\<close>: every route that writes to the
  check-ins is a step, each request running from start to end on its own (the handlers
  are not interleaved), at any time, for any user or header and with any body.\<close>

inductive reachable :: "store \<Rightarrow> store \<Rightarrow> bool" for s0 :: store where
  start: "reachable s0 s0"
| create_v1: "reachable s0 s \<Longrightarrow> reachable s0 (fst (post_checkin_v1 fl now userId body s))"
| checkout_v1: "reachable s0 s \<Longrightarrow> reachable s0 (fst (checkout_v1 now userId s))"
| create_v2: "reachable s0 s \<Longrightarrow> reachable s0 (fst (post_checkin_v2 fl now userId body s))"
| checkout_v2: "reachable s0 s \<Longrightarrow> reachable s0 (fst (checkout_v2 now userId s))"
| create_next: "reachable s0 s \<Longrightarrow> reachable s0 (fst (POST_checkin fl authorization body s))"
| checkout_next: "reachable s0 s \<Longrightarrow> reachable s0 (fst (POST_checkout authorization s))"

definition conflict_message :: string where
  "conflict_message = ''You already have an active check-in. Please checkout first.''"

definition not_assigned_message :: string where
  "not_assigned_message = ''You are not assigned to this client''"

text \<open>A body that passes the input validation of the second Express version (lines
  281-298): a client id, and either no coordinate or two numbers within the bounds.\<close>

definition valid_body_v2 :: "checkin_body \<Rightarrow> bool" where
  "valid_body_v2 body =
     ((case b_client_id body of None \<Rightarrow> False | Some client_id \<Rightarrow> client_id \<noteq> 0)
      \<and> (case (b_latitude body, b_longitude body) of
            (JUndefined, JUndefined) \<Rightarrow> True
          | (JNumber x, JNumber y) \<Rightarrow> - 90 \<le> x \<and> x \<le> 90 \<and> - 180 \<le> y \<and> y \<le> 180
          | _ \<Rightarrow> False))"

text \<open>The employee has an assignment row for the client (the test of both Express
  versions).\<close>

definition assigned :: "store \<Rightarrow> int \<Rightarrow> int \<Rightarrow> bool" where
  "assigned s employeeId clientId =
     (filter (\<lambda>ec. ec_employee_id ec = employeeId \<and> ec_client_id ec = clientId)
        (employeeClients s) \<noteq> [])"

text \<open>A response that is a success, whatever its status and payload.\<close>

definition is_success :: "'a response \<Rightarrow> bool" where
  "is_success r = (case r of Success st p \<Rightarrow> True | Failure st m \<Rightarrow> False)"

section \<open>Example requests on the seed data\<close>

text \<open>Six in the evening of 2024-01-15, after the last checkout of the seed data.\<close>

definition six_pm :: timestamp where
  "six_pm = at_time 19737 18 0"

text \<open>Bodies for client 1 (ABC Corp, at 28.4946, 77.0887): without coordinates, on the
  equator (latitude 0), at the client's own coordinates, and with a \<^verbatim>\<open>null\<close> latitude; and
  a body for client 5 without coordinates.\<close>

definition body_plain :: checkin_body where
  "body_plain =
     \<lparr>b_client_id = Some 1, b_latitude = JUndefined, b_longitude = JUndefined, b_notes = None\<rparr>"

definition body_equator :: checkin_body where
  "body_equator =
     \<lparr>b_client_id = Some 1, b_latitude = JNumber 0, b_longitude = JNumber 77.0887,
      b_notes = None\<rparr>"

definition body_at_client :: checkin_body where
  "body_at_client =
     \<lparr>b_client_id = Some 1, b_latitude = JNumber 28.4946, b_longitude = JNumber 77.0887,
      b_notes = None\<rparr>"

definition body_null_latitude :: checkin_body where
  "body_null_latitude =
     \<lparr>b_client_id = Some 1, b_latitude = JNull, b_longitude = JNumber 77.0887, b_notes = None\<rparr>"

definition body_client_5 :: checkin_body where
  "body_client_5 =
     \<lparr>b_client_id = Some 5, b_latitude = JUndefined, b_longitude = JUndefined, b_notes = None\<rparr>"

text \<open>The row a check-in at \<open>six_pm\<close> for client 1 adds to the seed data: its id is 6.\<close>

definition sixth_checkin ::
  "int \<Rightarrow> real option \<Rightarrow> real option \<Rightarrow> real option \<Rightarrow> Checkin" where
  "sixth_checkin employee latitude longitude distance =
     \<lparr>ch_id = 6, ch_employee_id = employee, ch_client_id = 1,
      ch_checkin_time = six_pm, ch_checkout_time = None,
      ch_latitude = latitude, ch_longitude = longitude,
      ch_distance_from_client = distance, ch_notes = None, ch_status = CheckedIn\<rparr>"

text \<open>The seed data after employee 2 has checked in at client 1, without coordinates,
  through the second Express version.\<close>

definition seed_checked_in :: store where
  "seed_checked_in = fst (post_checkin_v2 (\<lambda>x. x) six_pm 2 body_plain seed)"

text \<open>An authorization header that passes the test of the Next.js routes.\<close>

definition bearer_header :: "string option" where
  "bearer_header = Some ''Bearer abc''"

section \<open>The daily summary report\<close>

text \<open>
  \<^verbatim>\<open>GET /daily-summary\<close> of the reports router, after \<^verbatim>\<open>authenticateToken\<close> and
  \<^verbatim>\<open>requireManager\<close>. The \<^verbatim>\<open>date\<close> parameter is classified by the three tests of lines
  45-68 (absent or empty, not matching the pattern, not a date) and is otherwise a calendar
  day; the \<^verbatim>\<open>employee_id\<close> parameter is absent or empty, or what \<^verbatim>\<open>parseInt\<close> makes of
  it: NaN or an integer. The additions, the divisions and the roundings to two decimals are
  operations of the double-precision arithmetic, each rounded by \<open>fl\<close>; the difference of
  two timestamps, the counters and the constant \<^verbatim>\<open>1000 * 60 * 60\<close> are integers and exact.
\<close>

datatype date_query = DateMissing | DateMalformed | DateInvalid | DateGiven day

datatype employee_query = NoEmployee | EmployeeNaN | EmployeeGiven int

record summary_row =
  sr_checkin :: Checkin
  sr_employee_name :: string
  sr_employee_email :: string
  sr_client_name :: string
  sr_client_address :: string

record checkin_detail =
  d_id :: int
  d_client_id :: int
  d_client_name :: string
  d_client_address :: string
  d_checkin_time :: timestamp
  d_checkout_time :: "timestamp option"
  d_hours_worked :: real
  d_distance_from_client :: "real option"
  d_notes :: "string option"
  d_status :: checkin_status

text \<open>A value of \<^verbatim>\<open>employeeMap\<close>, without its two fields that are never read
  (\<^verbatim>\<open>clients_visited\<close> and \<^verbatim>\<open>average_distance\<close>).\<close>

record employee_acc =
  a_employee_id :: int
  a_employee_name :: string
  a_employee_email :: string
  a_total_checkins :: nat
  a_hours_worked :: real
  a_client_names :: "string list"
  a_total_distance :: real
  a_distance_count :: nat
  a_checkins :: "checkin_detail list"

record employee_entry =
  e_employee_id :: int
  e_employee_name :: string
  e_employee_email :: string
  e_total_checkins :: nat
  e_hours_worked :: real
  e_clients_visited :: "string list"
  e_average_distance :: "real option"
  e_checkins :: "checkin_detail list"

record team_summary =
  t_total_employees :: nat
  t_employees_with_checkins :: nat
  t_total_checkins :: nat
  t_total_hours_worked :: real
  t_unique_clients_visited :: nat
  t_average_distance_from_client :: "real option"

record daily_summary_data =
  ds_date :: day
  ds_team_summary :: team_summary
  ds_employee_breakdown :: "employee_entry list"

text \<open>The loop state of lines 139-144.\<close>

record summary_acc =
  sa_employeeMap :: "(int \<times> employee_acc) list"
  sa_totalCheckins :: nat
  sa_totalHoursWorked :: real
  sa_uniqueClients :: "int list"
  sa_totalDistance :: real
  sa_distanceCount :: nat

text \<open>A JavaScript \<^verbatim>\<open>Map\<close> is an association list in insertion order: \<^verbatim>\<open>set\<close> replaces the
  value of a key in place or appends, \<^verbatim>\<open>get\<close> is \<^const>\<open>map_of\<close>. A \<^verbatim>\<open>Set\<close> is a list
  without repetition in insertion order.\<close>

fun map_set :: "'k \<Rightarrow> 'v \<Rightarrow> ('k \<times> 'v) list \<Rightarrow> ('k \<times> 'v) list" where
  "map_set k v [] = [(k, v)]"
| "map_set k v ((k', v') # m) = (if k = k' then (k, v) # m else (k', v') # map_set k v m)"

definition set_add :: "'a \<Rightarrow> 'a list \<Rightarrow> 'a list" where
  "set_add x xs = (if x \<in> set xs then xs else xs @ [x])"

text \<open>\<^verbatim>\<open>SELECT id, name, email FROM users WHERE manager_id = ?\<close>.\<close>

definition team_members :: "store \<Rightarrow> int \<Rightarrow> User list" where
  "team_members s managerId = filter (\<lambda>u. u_manager_id u = Some managerId) (users s)"

text \<open>The query of lines 112-136: check-ins joined with their user and their client, of
  the manager's team, on the day, of the one employee if the filter is set, ordered by
  employee and check-in time.\<close>

definition select_daily_checkins :: "store \<Rightarrow> int \<Rightarrow> day \<Rightarrow> int option \<Rightarrow> summary_row list" where
  "select_daily_checkins s managerId date employee =
     sort_key (\<lambda>r. (ch_employee_id (sr_checkin r), ch_checkin_time (sr_checkin r)))
       (concat (map
          (\<lambda>ch. concat (map
             (\<lambda>u. map
                (\<lambda>c. \<lparr>sr_checkin = ch, sr_employee_name = u_name u,
                       sr_employee_email = u_email u, sr_client_name = cl_name c,
                       sr_client_address = cl_address c\<rparr>)
                (filter (\<lambda>c. cl_id c = ch_client_id ch) (clients s)))
             (filter (\<lambda>u. u_id u = ch_employee_id ch \<and> u_manager_id u = Some managerId)
                (users s))))
          (filter (\<lambda>ch. date_of (ch_checkin_time ch) = date
                      \<and> (case employee of None \<Rightarrow> True | Some e \<Rightarrow> ch_employee_id ch = e))
             (checkins s))))"

text \<open>Lines 147-165.\<close>

definition init_member :: "User \<Rightarrow> employee_acc" where
  "init_member member =
     \<lparr>a_employee_id = u_id member, a_employee_name = u_name member,
      a_employee_email = u_email member, a_total_checkins = 0, a_hours_worked = 0,
      a_client_names = [], a_total_distance = 0, a_distance_count = 0, a_checkins = []\<rparr>"

definition init_employeeMap :: "employee_query \<Rightarrow> User list \<Rightarrow> (int \<times> employee_acc) list" where
  "init_employeeMap q teamMembers =
     fold (\<lambda>member m.
             if (case q of NoEmployee \<Rightarrow> False | EmployeeNaN \<Rightarrow> True
                 | EmployeeGiven e \<Rightarrow> u_id member \<noteq> e)
             then m else map_set (u_id member) (init_member member) m)
       teamMembers []"

text \<open>Lines 173-178: the hours of one check-in.\<close>

definition hours_of :: "(real \<Rightarrow> real) \<Rightarrow> summary_row \<Rightarrow> real" where
  "hours_of fl checkin =
     (case ch_checkout_time (sr_checkin checkin) of
        None \<Rightarrow> 0
      | Some checkoutTime \<Rightarrow>
          fl (real_of_int (checkoutTime - ch_checkin_time (sr_checkin checkin))
                / (1000 * 60 * 60)))"

definition detail_of :: "(real \<Rightarrow> real) \<Rightarrow> summary_row \<Rightarrow> checkin_detail" where
  "detail_of fl checkin =
     \<lparr>d_id = ch_id (sr_checkin checkin), d_client_id = ch_client_id (sr_checkin checkin),
      d_client_name = sr_client_name checkin, d_client_address = sr_client_address checkin,
      d_checkin_time = ch_checkin_time (sr_checkin checkin),
      d_checkout_time = ch_checkout_time (sr_checkin checkin),
      d_hours_worked = round2 fl (hours_of fl checkin),
      d_distance_from_client = ch_distance_from_client (sr_checkin checkin),
      d_notes = ch_notes (sr_checkin checkin), d_status = ch_status (sr_checkin checkin)\<rparr>"

text \<open>Lines 180-203, on the employee's entry.\<close>

definition add_checkin ::
  "(real \<Rightarrow> real) \<Rightarrow> summary_row \<Rightarrow> employee_acc \<Rightarrow> employee_acc" where
  "add_checkin fl checkin employee =
     (let employee' = employee
            \<lparr>a_total_checkins := a_total_checkins employee + 1,
             a_hours_worked := fl (a_hours_worked employee + hours_of fl checkin),
             a_client_names := set_add (sr_client_name checkin) (a_client_names employee),
             a_checkins := a_checkins employee @ [detail_of fl checkin]\<rparr>
      in case ch_distance_from_client (sr_checkin checkin) of
           None \<Rightarrow> employee'
         | Some d \<Rightarrow> employee'\<lparr>a_total_distance := fl (a_total_distance employee + d),
                               a_distance_count := a_distance_count employee + 1\<rparr>)"

text \<open>Lines 168-209: one round of the loop over the check-ins.\<close>

definition process_checkin ::
  "(real \<Rightarrow> real) \<Rightarrow> summary_row \<Rightarrow> summary_acc \<Rightarrow> summary_acc" where
  "process_checkin fl checkin acc =
     (case map_of (sa_employeeMap acc) (ch_employee_id (sr_checkin checkin)) of
        None \<Rightarrow> acc
      | Some employee \<Rightarrow>
          (let acc' = acc
                 \<lparr>sa_employeeMap :=
                    map_set (ch_employee_id (sr_checkin checkin)) (add_checkin fl checkin employee)
                      (sa_employeeMap acc),
                  sa_totalCheckins := sa_totalCheckins acc + 1,
                  sa_totalHoursWorked := fl (sa_totalHoursWorked acc + hours_of fl checkin),
                  sa_uniqueClients :=
                    set_add (ch_client_id (sr_checkin checkin)) (sa_uniqueClients acc)\<rparr>
           in case ch_distance_from_client (sr_checkin checkin) of
                None \<Rightarrow> acc'
              | Some d \<Rightarrow> acc'\<lparr>sa_totalDistance := fl (sa_totalDistance acc + d),
                              sa_distanceCount := sa_distanceCount acc + 1\<rparr>))"

text \<open>Lines 220-231.\<close>

definition finalize_employee :: "(real \<Rightarrow> real) \<Rightarrow> employee_acc \<Rightarrow> employee_entry" where
  "finalize_employee fl employee =
     \<lparr>e_employee_id = a_employee_id employee, e_employee_name = a_employee_name employee,
      e_employee_email = a_employee_email employee,
      e_total_checkins = a_total_checkins employee,
      e_hours_worked = round2 fl (a_hours_worked employee),
      e_clients_visited = a_client_names employee,
      e_average_distance =
        (if a_distance_count employee > 0
         then Some (round2 fl (fl (a_total_distance employee / real (a_distance_count employee))))
         else None),
      e_checkins = a_checkins employee\<rparr>"

text \<open>\<^verbatim>\<open>employeeBreakdown.sort((a, b) => b.total_checkins - a.total_checkins)\<close>: the sort
  is stable, as is \<^const>\<open>sort_key\<close>.\<close>

definition sort_breakdown :: "employee_entry list \<Rightarrow> employee_entry list" where
  "sort_breakdown = sort_key (\<lambda>e. - int (e_total_checkins e))"

definition empty_summary :: "day \<Rightarrow> daily_summary_data" where
  "empty_summary date =
     \<lparr>ds_date = date,
      ds_team_summary =
        \<lparr>t_total_employees = 0, t_employees_with_checkins = 0, t_total_checkins = 0,
         t_total_hours_worked = 0, t_unique_clients_visited = 0,
         t_average_distance_from_client = None\<rparr>,
      ds_employee_breakdown = []\<rparr>"

text \<open>Lines 139-254: the aggregation, for a team that is not empty.\<close>

definition aggregate ::
  "(real \<Rightarrow> real) \<Rightarrow> day \<Rightarrow> employee_query \<Rightarrow> User list \<Rightarrow> summary_row list
     \<Rightarrow> daily_summary_data" where
  "aggregate fl date q teamMembers rows =
     (let acc = fold (process_checkin fl) rows
                  \<lparr>sa_employeeMap = init_employeeMap q teamMembers, sa_totalCheckins = 0,
                   sa_totalHoursWorked = 0, sa_uniqueClients = [], sa_totalDistance = 0,
                   sa_distanceCount = 0\<rparr>;
          employeesWithCheckins =
            length (filter (\<lambda>(k, employee). a_total_checkins employee > 0) (sa_employeeMap acc));
          employeeBreakdown =
            sort_breakdown
              (map (\<lambda>(k, employee). finalize_employee fl employee) (sa_employeeMap acc))
      in \<lparr>ds_date = date,
          ds_team_summary =
            \<lparr>t_total_employees = (if q = NoEmployee then length teamMembers else 1),
             t_employees_with_checkins = employeesWithCheckins,
             t_total_checkins = sa_totalCheckins acc,
             t_total_hours_worked = round2 fl (sa_totalHoursWorked acc),
             t_unique_clients_visited = length (sa_uniqueClients acc),
             t_average_distance_from_client =
               (if sa_distanceCount acc > 0
                then Some (round2 fl (fl (sa_totalDistance acc / real (sa_distanceCount acc))))
                else None)\<rparr>,
          ds_employee_breakdown = employeeBreakdown\<rparr>)"

text \<open>The handler, lines 40-265. It only reads the store.\<close>

definition daily_summary ::
  "(real \<Rightarrow> real) \<Rightarrow> store \<Rightarrow> int \<Rightarrow> date_query \<Rightarrow> employee_query
     \<Rightarrow> daily_summary_data response" where
  "daily_summary fl s managerId dq q =
     (case dq of
        DateMissing \<Rightarrow> Failure 400 ''Date parameter is required (format: YYYY-MM-DD)''
      | DateMalformed \<Rightarrow> Failure 400 ''Invalid date format. Use YYYY-MM-DD''
      | DateInvalid \<Rightarrow> Failure 400 ''Invalid date provided''
      | DateGiven date \<Rightarrow>
          (let teamMembers = team_members s managerId in
           if teamMembers = [] then Success 200 (empty_summary date)
           else if q = EmployeeNaN then Failure 400 ''Invalid employee_id parameter''
           else Success 200
                  (aggregate fl date q teamMembers
                     (select_daily_checkins s managerId date
                        (case q of EmployeeGiven e \<Rightarrow> Some e | _ \<Rightarrow> None)))))"

section \<open>Properties of the daily summary: definitions\<close>

text \<open>The distances of the check-ins that carry one.\<close>

fun distances :: "summary_row list \<Rightarrow> real list" where
  "distances [] = []"
| "distances (r # rs) =
     (case ch_distance_from_client (sr_checkin r) of
        None \<Rightarrow> distances rs
      | Some d \<Rightarrow> d # distances rs)"

text \<open>The sum of a list of numbers in the arithmetic: the numbers are added one after the
  other to a total that starts at \<open>a\<close>, each addition rounded by \<open>fl\<close>.\<close>

definition running_sum :: "(real \<Rightarrow> real) \<Rightarrow> real \<Rightarrow> real list \<Rightarrow> real" where
  "running_sum fl a xs = foldl (\<lambda>total x. fl (total + x)) a xs"

text \<open>The standard model of a rounded arithmetic: zero is rounded to itself, and the
  rounding of a number is off by at most the relative error \<open>u\<close> plus the absolute error
  \<open>eta\<close>. For doubles rounded to nearest, \<open>u\<close> is 2 to the power -53 and \<open>eta\<close>, which
  covers the subnormal range, is 2 to the power -1075. The identity is the exact
  arithmetic, with \<open>u = 0\<close> and \<open>eta = 0\<close>.\<close>

definition rounding :: "real \<Rightarrow> real \<Rightarrow> (real \<Rightarrow> real) \<Rightarrow> bool" where
  "rounding u eta fl =
     (0 \<le> u \<and> 0 \<le> eta \<and> fl 0 = 0 \<and> (\<forall>x. \<bar>fl x - x\<bar> \<le> u * \<bar>x\<bar> + eta))"

text \<open>The rows of the query that belong to one employee.\<close>

definition rows_of :: "int \<Rightarrow> summary_row list \<Rightarrow> summary_row list" where
  "rows_of employee rows = filter (\<lambda>r. ch_employee_id (sr_checkin r) = employee) rows"

text \<open>The entry of a team member in closed form: the member's rows of the query folded
  into the member's initial entry.\<close>

definition entry_of :: "(real \<Rightarrow> real) \<Rightarrow> summary_row list \<Rightarrow> User \<Rightarrow> employee_entry" where
  "entry_of fl rows u =
     finalize_employee fl (fold (add_checkin fl) (rows_of (u_id u) rows) (init_member u))"

text \<open>The report of manager 1 on 2024-01-15 in the exact arithmetic: three team members,
  employee 2 with three check-ins, employee 3 with two, employee 4 with none.\<close>

definition seed_report :: daily_summary_data where
  "seed_report = payload (daily_summary (\<lambda>x. x) seed 1 (DateGiven 19737) NoEmployee)"

section \<open>The geodistance function\<close>

lemma atan2_zero_one: "atan2 0 1 = 0"
  by (simp add: atan2_def)

lemma haversine_term_sym:
  "sin (toRad (x - y) / 2) * sin (toRad (x - y) / 2) =
   sin (toRad (y - x) / 2) * sin (toRad (y - x) / 2)"
proof -
  have "toRad (x - y) / 2 = - (toRad (y - x) / 2)"
    by (simp add: toRad_def field_simps)
  then show ?thesis
    by (simp only: sin_minus minus_mult_minus)
qed

lemma calculateDistance_same: "calculateDistance p q p q = 0"
  by (simp add: calculateDistance_def toRad_def atan2_zero_one)

lemma calculateDistanceKm_eq: "calculateDistanceKm a b c d = calculateDistance a b c d"
  by (simp add: calculateDistanceKm_def calculateDistance_def toRad_def Let_def power2_eq_square
      algebra_simps)

text \<open>
  C7. The distance from a point to itself is 0, and the distance is symmetric in its two
  points; both hold for \<^verbatim>\<open>calculateDistance\<close> and for \<^verbatim>\<open>calculateDistanceKm\<close>.
\<close>

theorem calculateDistance_identical_and_symmetric:
  "calculateDistance lat lon lat lon = 0
   \<and> calculateDistance lat1 lon1 lat2 lon2 = calculateDistance lat2 lon2 lat1 lon1
   \<and> calculateDistanceKm lat lon lat lon = 0
   \<and> calculateDistanceKm lat1 lon1 lat2 lon2 = calculateDistanceKm lat2 lon2 lat1 lon1"
proof -
  have same: "calculateDistance p q p q = 0" for p q
    by (rule calculateDistance_same)
  have "sin (toRad (lat2 - lat1) / 2) * sin (toRad (lat2 - lat1) / 2) +
          cos (toRad lat1) * cos (toRad lat2) *
          sin (toRad (lon2 - lon1) / 2) * sin (toRad (lon2 - lon1) / 2) =
        sin (toRad (lat1 - lat2) / 2) * sin (toRad (lat1 - lat2) / 2) +
          cos (toRad lat2) * cos (toRad lat1) *
          sin (toRad (lon1 - lon2) / 2) * sin (toRad (lon1 - lon2) / 2)"
    using haversine_term_sym [of lat2 lat1] haversine_term_sym [of lon2 lon1]
    by (simp add: mult.assoc mult.commute)
  then have sym: "calculateDistance lat1 lon1 lat2 lon2 = calculateDistance lat2 lon2 lat1 lon1"
    by (simp add: calculateDistance_def Let_def)
  show ?thesis
    using same sym by (simp add: calculateDistanceKm_eq)
qed

section \<open>Lemmas on the queries and the routes\<close>

lemma most_recent_None: "most_recent xs = None \<longleftrightarrow> xs = []"
  by (induction xs) (auto split: option.splits)

lemma most_recent_mem: "most_recent xs = Some r \<Longrightarrow> r \<in> set xs"
  by (induction xs arbitrary: r) (auto split: option.splits if_splits)

lemma active_count_0:
  "active_count s u = 0 \<longleftrightarrow>
   filter (\<lambda>c. ch_employee_id c = u \<and> ch_status c = CheckedIn) (checkins s) = []"
  by (simp add: active_count_def)

lemma getMostRecentActiveCheckin_Nil:
  "getMostRecentActiveCheckin s u = [] \<longleftrightarrow> active_count s u = 0"
  by (auto simp: getMostRecentActiveCheckin_def active_count_def most_recent_None
      split: option.splits)

lemma getMostRecentActiveCheckin_cases:
  "getMostRecentActiveCheckin s u = []
   \<or> (\<exists>c. getMostRecentActiveCheckin s u = [c] \<and> c \<in> set (checkins s)
           \<and> ch_employee_id c = u \<and> ch_status c = CheckedIn)"
proof (cases "most_recent
    (filter (\<lambda>c. ch_employee_id c = u \<and> ch_status c = CheckedIn) (checkins s))")
  case None
  then show ?thesis by (simp add: getMostRecentActiveCheckin_def)
next
  case (Some c)
  then have "c \<in> set (filter (\<lambda>c. ch_employee_id c = u \<and> ch_status c = CheckedIn) (checkins s))"
    by (rule most_recent_mem)
  then show ?thesis using Some by (simp add: getMostRecentActiveCheckin_def)
qed

lemma assigned_iff_isAssigned: "assigned s e c \<longleftrightarrow> employeeClients_isAssigned s e c"
  by (auto simp: assigned_def employeeClients_isAssigned_def list_ex_iff filter_empty_conv)

lemma is_success_simps:
  "is_success (Success st p)" "\<not> is_success (Failure st m)"
  by (simp_all add: is_success_def)

subsection \<open>Frames\<close>

lemma update_first_frame:
  "list_all2 (\<lambda>c c'. c' = c \<or> (P c \<and> c' = f c)) xs (update_first P f xs)"
  by (induction xs) (auto simp: list.rel_refl)

lemma map_frame:
  "list_all2 (\<lambda>c c'. c' = c \<or> (P c \<and> c' = f c)) xs (map (\<lambda>c. if P c then f c else c) xs)"
  by (induction xs) auto

lemma list_all2_weaken:
  "list_all2 P xs ys \<Longrightarrow> (\<And>x y. x \<in> set xs \<Longrightarrow> P x y \<Longrightarrow> Q x y) \<Longrightarrow> list_all2 Q xs ys"
  by (induction rule: list_all2_induct) auto

lemma checkout_frame_refl: "checkout_frame now acted s s"
  by (simp add: checkout_frame_def list.rel_refl)

lemma checkins_checkout_frame:
  "checkout_frame now (\<lambda>c. ch_id c = checkinId) s (fst (checkins_checkout now checkinId s))"
  by (auto simp: checkout_frame_def checkins_checkout_def update_first_frame list.rel_refl
      split: option.splits)

lemma checkout_v2_frame:
  "checkout_frame now
     (\<lambda>c. ch_status c = CheckedIn \<and>
          list_ex (\<lambda>a. ch_employee_id a = e \<and> ch_status a = CheckedIn \<and> ch_id a = ch_id c)
            (checkins s))
     s (fst (checkout_v2 now e s))"
proof (cases "getMostRecentActiveCheckin s e")
  case Nil
  then show ?thesis by (simp add: checkout_v2_def checkout_frame_refl)
next
  case (Cons a as)
  then have "most_recent (filter (\<lambda>c. ch_employee_id c = e \<and> ch_status c = CheckedIn)
                (checkins s)) = Some a"
    by (auto simp: getMostRecentActiveCheckin_def split: option.splits)
  then have a: "a \<in> set (checkins s)" "ch_employee_id a = e" "ch_status a = CheckedIn"
    using most_recent_mem by fastforce+
  let ?upd = "\<lambda>c. c\<lparr>ch_checkout_time := Some now, ch_status := CheckedOut\<rparr>"
  let ?new = "map (\<lambda>c. if ch_id c = ch_id a \<and> ch_status c = CheckedIn then ?upd c else c)
                (checkins s)"
  have "list_all2 (\<lambda>c c'. c' = c \<or> ((ch_id c = ch_id a \<and> ch_status c = CheckedIn) \<and> c' = ?upd c))
          (checkins s) ?new"
    by (rule map_frame)
  then have "list_all2
       (\<lambda>c c'. c' = c \<or>
          ((ch_status c = CheckedIn \<and>
            list_ex (\<lambda>a. ch_employee_id a = e \<and> ch_status a = CheckedIn \<and> ch_id a = ch_id c)
              (checkins s)) \<and> c' = ?upd c))
       (checkins s) ?new"
    by (rule list_all2_weaken) (use a in \<open>auto simp: list_ex_iff\<close>)
  then show ?thesis using Cons
    by (simp add: checkout_v2_def checkout_frame_def Let_def)
qed

lemma frame_fields:
  assumes "checkout_frame now acted s s'"
  shows "map ch_id (checkins s') = map ch_id (checkins s)"
    and "map ch_employee_id (checkins s') = map ch_employee_id (checkins s)"
    and "map ch_client_id (checkins s') = map ch_client_id (checkins s)"
    and "map ch_checkin_time (checkins s') = map ch_checkin_time (checkins s)"
    and "map ch_latitude (checkins s') = map ch_latitude (checkins s)"
    and "map ch_longitude (checkins s') = map ch_longitude (checkins s)"
    and "map ch_distance_from_client (checkins s') = map ch_distance_from_client (checkins s)"
    and "map ch_notes (checkins s') = map ch_notes (checkins s)"
proof -
  have *: "list_all2 (\<lambda>c c'. c' = c \<or>
            (acted c \<and> c' = c\<lparr>ch_checkout_time := Some now, ch_status := CheckedOut\<rparr>))
          (checkins s) (checkins s')"
    using assms by (simp add: checkout_frame_def)
  have "list_all2 (\<lambda>c c'. g c' = g c) (checkins s) (checkins s') \<Longrightarrow>
        map g (checkins s') = map g (checkins s)" for g :: "Checkin \<Rightarrow> 'b"
    by (induction rule: list_all2_induct) auto
  moreover have "list_all2 (\<lambda>c c'. ch_id c' = ch_id c) (checkins s) (checkins s')"
    "list_all2 (\<lambda>c c'. ch_employee_id c' = ch_employee_id c) (checkins s) (checkins s')"
    "list_all2 (\<lambda>c c'. ch_client_id c' = ch_client_id c) (checkins s) (checkins s')"
    "list_all2 (\<lambda>c c'. ch_checkin_time c' = ch_checkin_time c) (checkins s) (checkins s')"
    "list_all2 (\<lambda>c c'. ch_latitude c' = ch_latitude c) (checkins s) (checkins s')"
    "list_all2 (\<lambda>c c'. ch_longitude c' = ch_longitude c) (checkins s) (checkins s')"
    "list_all2 (\<lambda>c c'. ch_distance_from_client c' = ch_distance_from_client c)
       (checkins s) (checkins s')"
    "list_all2 (\<lambda>c c'. ch_notes c' = ch_notes c) (checkins s) (checkins s')"
    by (rule list_all2_weaken [OF *], auto)+
  ultimately show "map ch_id (checkins s') = map ch_id (checkins s)"
    and "map ch_employee_id (checkins s') = map ch_employee_id (checkins s)"
    and "map ch_client_id (checkins s') = map ch_client_id (checkins s)"
    and "map ch_checkin_time (checkins s') = map ch_checkin_time (checkins s)"
    and "map ch_latitude (checkins s') = map ch_latitude (checkins s)"
    and "map ch_longitude (checkins s') = map ch_longitude (checkins s)"
    and "map ch_distance_from_client (checkins s') = map ch_distance_from_client (checkins s)"
    and "map ch_notes (checkins s') = map ch_notes (checkins s)"
    by blast+
qed


subsection \<open>The effect of a checkout\<close>

lemma find_index:
  "find P xs = Some x \<Longrightarrow>
   \<exists>i < length xs. xs ! i = x \<and> P x \<and> (\<forall>j < i. \<not> P (xs ! j))
     \<and> update_first P f xs = xs[i := f x]"
proof (induction xs)
  case Nil
  then show ?case by simp
next
  case (Cons y ys)
  show ?case
  proof (cases "P y")
    case True
    then have "x = y" using Cons.prems by simp
    then show ?thesis using True by (intro exI [of _ 0]) simp
  next
    case False
    then have "find P ys = Some x" using Cons.prems by simp
    then obtain i where i: "i < length ys" "ys ! i = x" "P x" "\<forall>j < i. \<not> P (ys ! j)"
      "update_first P f ys = ys[i := f x]"
      using Cons.IH by blast
    have "\<forall>j < Suc i. \<not> P ((y # ys) ! j)"
      using False i(4) by (auto simp: less_Suc_eq_0_disj)
    then show ?thesis using False i by (intro exI [of _ "Suc i"]) simp
  qed
qed

lemma checkins_checkout_None:
  "find (\<lambda>c. ch_id c = checkinId) (checkins s) = None \<Longrightarrow>
   checkins_checkout now checkinId s = (s, None)"
  by (simp add: checkins_checkout_def)

lemma checkins_checkout_Some:
  assumes "find (\<lambda>c. ch_id c = checkinId) (checkins s) = Some c"
  shows "\<exists>i < length (checkins s). checkins s ! i = c \<and> ch_id c = checkinId
     \<and> (\<forall>j < i. ch_id (checkins s ! j) \<noteq> checkinId)
     \<and> checkins_checkout now checkinId s =
         (s\<lparr>checkins := (checkins s)[i := checked_out now c]\<rparr>, Some (checked_out now c))"
  using find_index [OF assms, of "\<lambda>c. c\<lparr>ch_checkout_time := Some now, ch_status := CheckedOut\<rparr>"]
    assms
  by (auto simp: checkins_checkout_def checked_out_def)

lemma filter_id_distinct:
  "distinct (map ch_id xs) \<Longrightarrow> c \<in> set xs \<Longrightarrow> (\<And>x. ch_id (g x) = ch_id x) \<Longrightarrow>
   filter (\<lambda>x. ch_id x = ch_id c) (map g xs) = [g c]"
proof (induction xs)
  case Nil
  then show ?case by simp
next
  case (Cons y ys)
  show ?case
  proof (cases "y = c")
    case True
    have "ch_id c \<notin> ch_id ` set ys"
      using Cons.prems(1) True by simp
    then have "\<forall>x \<in> set ys. ch_id (g x) \<noteq> ch_id c"
      using Cons.prems(3) by (metis imageI)
    then have "filter (\<lambda>x. ch_id x = ch_id c) (map g ys) = []"
      by (simp add: filter_empty_conv)
    then show ?thesis using True Cons.prems(3) by simp
  next
    case False
    then have "c \<in> set ys" using Cons.prems(2) by simp
    moreover have "ch_id y \<noteq> ch_id c"
      using Cons.prems(1) \<open>c \<in> set ys\<close> by auto
    ultimately show ?thesis using Cons by simp
  qed
qed

lemma filter_map_le:
  "(\<And>x. P (g x) \<Longrightarrow> P x) \<Longrightarrow> length (filter P (map g xs)) \<le> length (filter P xs)"
  by (induction xs) auto

lemma filter_map_less:
  assumes "\<And>x. P (g x) \<Longrightarrow> P x" and "c \<in> set xs" and "P c" and "\<not> P (g c)"
  shows "length (filter P (map g xs)) < length (filter P xs)"
  using assms(2)
proof (induction xs)
  case Nil
  then show ?case by simp
next
  case (Cons y ys)
  show ?case
  proof (cases "y = c")
    case True
    then show ?thesis
      using assms(3,4) filter_map_le [of P g ys, OF assms(1)] by simp
  next
    case False
    then have "length (filter P (map g ys)) < length (filter P ys)"
      using Cons by simp
    then show ?thesis using assms(1) [of y] by auto
  qed
qed

lemma select_checkin_by_id_single:
  assumes "filter (\<lambda>ch. ch_id ch = i) (checkins s) = [c]"
  shows "\<exists>row. select_checkin_by_id s i = [row] \<and> jc_checkin row = c"
proof (cases "filter (\<lambda>cl. cl_id cl = ch_client_id c) (clients s)")
  case Nil
  then show ?thesis using assms by (simp add: select_checkin_by_id_def)
next
  case (Cons cl cls)
  then show ?thesis using assms by (simp add: select_checkin_by_id_def)
qed

lemma checkout_v2_no_active:
  "active_count s u = 0 \<Longrightarrow> checkout_v2 now u s = (s, Failure 404 ''No active check-in found'')"
  by (simp add: checkout_v2_def getMostRecentActiveCheckin_Nil [symmetric])

lemma checkout_v2_Nil:
  "getMostRecentActiveCheckin s e = [] \<Longrightarrow>
   checkout_v2 now e s = (s, Failure 404 ''No active check-in found'')"
  by (simp add: checkout_v2_def)

lemma checkout_v2_effect:
  assumes "getMostRecentActiveCheckin s e = [c]"
  shows "c \<in> set (checkins s)" "ch_employee_id c = e" "ch_status c = CheckedIn"
    and "\<exists>data. snd (checkout_v2 now e s) = Success 200 (data, ''Checked out successfully'')
           \<and> (case data of
                Inl row \<Rightarrow> ch_id (jc_checkin row) = ch_id c
                  \<and> ch_status (jc_checkin row) = CheckedOut
                  \<and> (distinct (map ch_id (checkins s)) \<longrightarrow> jc_checkin row = checked_out now c)
              | Inr i \<Rightarrow> False)"
    and "length (checkins (fst (checkout_v2 now e s))) = length (checkins s)"
    and "\<forall>i < length (checkins s).
           checkins (fst (checkout_v2 now e s)) ! i =
             (if ch_id (checkins s ! i) = ch_id c \<and> ch_status (checkins s ! i) = CheckedIn
              then checked_out now (checkins s ! i) else checkins s ! i)"
    and "checked_out now c \<in> set (checkins (fst (checkout_v2 now e s)))"
    and "active_count (fst (checkout_v2 now e s)) e < active_count s e"
proof -
  define s' where "s' = fst (checkout_v2 now e s)"
  let ?g = "\<lambda>r. if ch_id r = ch_id c \<and> ch_status r = CheckedIn
                then r\<lparr>ch_checkout_time := Some now, ch_status := CheckedOut\<rparr> else r"
  show c: "c \<in> set (checkins s)" "ch_employee_id c = e" "ch_status c = CheckedIn"
    using getMostRecentActiveCheckin_cases [of s e] assms(1) by auto
  have s': "checkins s' = map ?g (checkins s)"
    and cl: "clients s' = clients s"
    using assms(1) by (simp_all add: s'_def checkout_v2_def Let_def)
  show "length (checkins (fst (checkout_v2 now e s))) = length (checkins s)"
    using s' by (simp add: s'_def)
  show "\<forall>i < length (checkins s).
           checkins (fst (checkout_v2 now e s)) ! i =
             (if ch_id (checkins s ! i) = ch_id c \<and> ch_status (checkins s ! i) = CheckedIn
              then checked_out now (checkins s ! i) else checkins s ! i)"
    using s' by (simp add: s'_def checked_out_def)
  have "?g c \<in> set (checkins s')"
    unfolding s' using c(1) by (simp add: image_iff) blast
  then have m: "checked_out now c \<in> set (checkins s')"
    using c(3) by (simp add: checked_out_def)
  then show "checked_out now c \<in> set (checkins (fst (checkout_v2 now e s)))"
    by (simp add: s'_def)
  have "length (filter (\<lambda>r. ch_employee_id r = e \<and> ch_status r = CheckedIn)
                  (map ?g (checkins s)))
        < length (filter (\<lambda>r. ch_employee_id r = e \<and> ch_status r = CheckedIn) (checkins s))"
    using c by (intro filter_map_less) (auto split: if_splits)
  then show "active_count (fst (checkout_v2 now e s)) e < active_count s e"
    using s' by (simp add: active_count_def s'_def)
  have ids: "ch_id (?g r) = ch_id r" for r by simp
  obtain rows where rows: "filter (\<lambda>ch. ch_id ch = ch_id c) (checkins s') = rows"
    by blast
  have "checked_out now c \<in> set (filter (\<lambda>ch. ch_id ch = ch_id c) (checkins s'))"
    using m by (simp add: checked_out_def)
  then have ne: "rows \<noteq> []"
    using rows by auto
  then obtain r rs where rrs: "rows = r # rs" by (cases rows) auto
  then have "r \<in> set (filter (\<lambda>ch. ch_id ch = ch_id c) (checkins s'))"
    using rows by simp
  then have rin: "r \<in> set (checkins s')" and rid: "ch_id r = ch_id c"
    by simp_all
  from rin obtain x where x: "x \<in> set (checkins s)" "r = ?g x"
    unfolding s' by auto
  have "ch_id x = ch_id c"
    using rid ids [of x] by (simp only: x(2))
  then have "ch_status r = CheckedOut"
    unfolding x(2) by (cases "ch_status x") simp_all
  with rid have r: "ch_id r = ch_id c" "ch_status r = CheckedOut"
    by simp_all
  have rd: "distinct (map ch_id (checkins s)) \<Longrightarrow> r = checked_out now c"
  proof -
    assume "distinct (map ch_id (checkins s))"
    then have "filter (\<lambda>x. ch_id x = ch_id c) (map ?g (checkins s)) = [?g c]"
      using c(1) ids by (intro filter_id_distinct) auto
    then show ?thesis using rows rrs c(3) by (simp add: s' checked_out_def)
  qed
  have "\<exists>row. take 1 (concat (map
       (\<lambda>ch. case filter (\<lambda>cl. cl_id cl = ch_client_id ch) (clients s') of
               [] \<Rightarrow> [\<lparr>jc_checkin = ch, jc_client_name = None, jc_client_address = None\<rparr>]
             | cs \<Rightarrow> map (\<lambda>cl. \<lparr>jc_checkin = ch, jc_client_name = Some (cl_name cl),
                               jc_client_address = Some (cl_address cl)\<rparr>) cs)
       (r # rs))) = [row] \<and> jc_checkin row = r"
    by (cases "filter (\<lambda>cl. cl_id cl = ch_client_id r) (clients s')") simp_all
  then obtain row where row: "select_checkin_by_id s' (ch_id c) = [row]" "jc_checkin row = r"
    using rows rrs by (auto simp: select_checkin_by_id_def)
  have "snd (checkout_v2 now e s) = Success 200 (Inl row, ''Checked out successfully'')"
    using assms(1) row(1) by (simp add: s'_def checkout_v2_def Let_def)
  then show "\<exists>data. snd (checkout_v2 now e s) = Success 200 (data, ''Checked out successfully'')
           \<and> (case data of
                Inl row \<Rightarrow> ch_id (jc_checkin row) = ch_id c
                  \<and> ch_status (jc_checkin row) = CheckedOut
                  \<and> (distinct (map ch_id (checkins s)) \<longrightarrow> jc_checkin row = checked_out now c)
              | Inr i \<Rightarrow> False)"
    using row(2) r rd by auto
qed

subsection \<open>The first Express version\<close>

text \<open>Whatever the request, the first version of the create route stores nothing: it
  answers 400 without a client id, 403 without an assignment, and otherwise 500, the
  statement of line 63 being refused. The first version of the checkout route answers
  404 when the employee has no check-in at all and otherwise 500, the statement of line
  139 being refused.\<close>

lemma post_checkin_v1_eq:
  "post_checkin_v1 fl now u body s =
     (s, case b_client_id body of
           None \<Rightarrow> Failure 400 ''Client ID is required''
         | Some cid \<Rightarrow>
             if cid = 0 then Failure 400 ''Client ID is required''
             else if \<not> assigned s u cid then Failure 403 not_assigned_message
             else Failure 500 ''Check-in failed'')"
  by (simp add: post_checkin_v1_def execute_def assigned_def not_assigned_message_def
      split: option.split)


lemma checkout_v1_eq:
  "checkout_v1 now u s =
     (s, if filter (\<lambda>c. ch_employee_id c = u) (checkins s) = []
         then Failure 404 ''No active check-in found'' else Failure 500 ''Checkout failed'')"
  by (cases "most_recent (filter (\<lambda>c. ch_employee_id c = u) (checkins s))")
     (auto simp: checkout_v1_def execute_def most_recent_None)


lemma distance_v1_nonzero:
  assumes "b_latitude body = JNumber la" "b_longitude body = JNumber lo"
    "cl_latitude client = Some cla" "cl_longitude client = Some clo"
    "la \<noteq> 0" "lo \<noteq> 0" "cla \<noteq> 0" "clo \<noteq> 0"
  shows "distance_v1 fl body (client # rest) =
    (Some (round2 fl (calculateDistance la lo cla clo)),
     if round2 fl (calculateDistance la lo cla clo) > 0.5 then Some far_warning else None)"
  using assms by (simp add: distance_v1_def truthy_number_def Let_def)

subsection \<open>The second Express version, case by case\<close>


lemma post_checkin_v2_valid:
  assumes "valid_body_v2 body" and "b_client_id body = Some cid"
  shows "post_checkin_v2 fl now u body s =
    (if \<not> assigned s u cid then (s, Failure 403 not_assigned_message)
     else if 0 < active_count s u then (s, Failure 400 conflict_message)
     else
       (let lat = (if b_latitude body \<noteq> JUndefined then Some (parseFloat (b_latitude body))
                   else None);
            lng = (if b_longitude body \<noteq> JUndefined then Some (parseFloat (b_longitude body))
                   else None);
            d = distance_v2 fl lat lng (filter (\<lambda>c. cl_id c = cid) (clients s));
            s' = fst (insert_checkin now u cid (bound_float lat) (bound_float lng) (fst d)
                        (map_option (take 2000) (b_notes body)) s)
        in (s', Success 201
              \<lparr>r2_data = (case select_checkin_by_id s' (next_rowid (checkins s)) of
                            row # _ \<Rightarrow> Inl row | [] \<Rightarrow> Inr (next_rowid (checkins s))),
               r2_message = ''Checked in successfully'',
               r2_distance_warning = snd d\<rparr>)))"
proof -
  have c: "cid \<noteq> 0"
    using assms by (simp add: valid_body_v2_def)
  have n: "getMostRecentActiveCheckin s u \<noteq> [] \<longleftrightarrow> 0 < active_count s u"
    by (simp add: getMostRecentActiveCheckin_Nil)
  have i: "snd (insert_checkin now u cid la lo d nt s) = next_rowid (checkins s)" for la lo d nt
    by (simp add: insert_checkin_def Let_def)
  consider (none) "b_latitude body = JUndefined" "b_longitude body = JUndefined"
    | (some) la lo where "b_latitude body = JNumber la" "b_longitude body = JNumber lo"
        "- 90 \<le> la" "la \<le> 90" "- 180 \<le> lo" "lo \<le> 180"
    using assms(1) by (auto simp: valid_body_v2_def split: js_number.splits)
  then show ?thesis
  proof cases
    case none
    then show ?thesis
      unfolding post_checkin_v2_def using c assms(2)
      by (simp add: case_prod_beta Let_def assigned_def n i conflict_message_def
          not_assigned_message_def)
  next
    case some
    then show ?thesis
      unfolding post_checkin_v2_def using c assms(2)
      by (simp add: case_prod_beta Let_def assigned_def n i conflict_message_def
          not_assigned_message_def parseFloat_def isValidLatitude_def isValidLongitude_def)
  qed
qed




subsection \<open>The Next.js routes\<close>

text \<open>Whatever the request, the Next.js routes store nothing and do not succeed: past the
  header test and the validation of the body they answer 500, the call of
  \<^verbatim>\<open>db.getActiveCheckin\<close> throwing.\<close>

lemma POST_checkout_eq:
  "POST_checkout authorization s =
     (s, case authorization of
           None \<Rightarrow> Failure 401 ''Authorization required''
         | Some h \<Rightarrow> if h = [] \<or> take 7 h \<noteq> ''Bearer ''
                     then Failure 401 ''Authorization required''
                     else Failure 500 ''Internal server error'')"
  by (simp add: POST_checkout_def verifyToken_def db_getActiveCheckin_def split: option.split)


lemma POST_checkin_bearer:
  assumes "take 7 h = ''Bearer ''" and "b_client_id body = Some cid" "1 \<le> cid"
    and "\<not> invalid_coordinate 90 (b_latitude body)"
    and "\<not> invalid_coordinate 180 (b_longitude body)"
    and "case b_notes body of None \<Rightarrow> True | Some notes \<Rightarrow> length notes \<le> 500"
  shows "POST_checkin fl (Some h) body s = (s, Failure 500 ''Internal server error'')"
proof -
  have "h \<noteq> []" using assms(1) by auto
  moreover have "\<not> (case b_notes body of None \<Rightarrow> False | Some notes \<Rightarrow> length notes > 500)"
    using assms(6) by (simp split: option.splits)
  ultimately show ?thesis
    using assms(1-5)
    by (simp add: POST_checkin_def verifyToken_def db_getActiveCheckin_def)
qed


subsection \<open>Steps and the number of active check-ins\<close>






section \<open>The routes on the seed data\<close>

lemmas seed_defs =
  seed_def seed_users_def seed_clients_def seed_employeeClients_def seed_checkins_def

lemma active_count_seed: "active_count seed e = 0"
  by (simp add: active_count_def seed_defs)

lemma assigned_seed:
  "assigned seed 2 1" "\<not> assigned seed 3 1" "\<not> assigned seed 2 5"
  by (simp_all add: assigned_def seed_defs)

lemma next_rowid_seed: "next_rowid (checkins seed) = 6"
  by (simp add: next_rowid_def seed_defs)

lemma client_1_seed:
  "filter (\<lambda>c. cl_id c = 1) (clients seed) =
     [\<lparr>cl_id = 1, cl_name = ''ABC Corp'', cl_address = ''Cyber City, Gurugram'',
       cl_latitude = Some 28.4946, cl_longitude = Some 77.0887\<rparr>]"
  by (simp add: seed_defs)

lemma body_fields:
  "b_client_id body_plain = Some 1" "b_latitude body_plain = JUndefined"
  "b_longitude body_plain = JUndefined" "b_notes body_plain = None"
  "b_client_id body_equator = Some 1" "b_latitude body_equator = JNumber 0"
  "b_longitude body_equator = JNumber 77.0887" "b_notes body_equator = None"
  "b_client_id body_at_client = Some 1" "b_latitude body_at_client = JNumber 28.4946"
  "b_longitude body_at_client = JNumber 77.0887" "b_notes body_at_client = None"
  "b_client_id body_null_latitude = Some 1" "b_latitude body_null_latitude = JNull"
  "b_longitude body_null_latitude = JNumber 77.0887" "b_notes body_null_latitude = None"
  "b_client_id body_client_5 = Some 5" "b_latitude body_client_5 = JUndefined"
  "b_longitude body_client_5 = JUndefined" "b_notes body_client_5 = None"
  by (simp_all add: body_plain_def body_equator_def body_at_client_def body_null_latitude_def
      body_client_5_def)

lemma valid_bodies:
  "valid_body_v2 body_plain" "valid_body_v2 body_equator" "valid_body_v2 body_at_client"
  "\<not> valid_body_v2 body_null_latitude" "valid_body_v2 body_client_5"
  by (simp_all add: valid_body_v2_def body_fields)

lemma post_checkin_v2_plain:
  "post_checkin_v2 fl six_pm 2 body_plain seed =
     (seed\<lparr>checkins := checkins seed @ [sixth_checkin 2 None None None]\<rparr>,
      Success 201
        \<lparr>r2_data = Inl \<lparr>jc_checkin = sixth_checkin 2 None None None,
                        jc_client_name = Some ''ABC Corp'',
                        jc_client_address = Some ''Cyber City, Gurugram''\<rparr>,
         r2_message = ''Checked in successfully'', r2_distance_warning = None\<rparr>)"
proof -
  have d: "distance_v2 fl None None rows = (None, None)" for rows
    by (simp add: distance_v2_def split: list.splits)
  have i: "fst (insert_checkin six_pm 2 1 None None None None seed) =
             seed\<lparr>checkins := checkins seed @ [sixth_checkin 2 None None None]\<rparr>"
    by (simp add: insert_checkin_def next_rowid_seed sixth_checkin_def)
  have j: "select_checkin_by_id
             (seed\<lparr>checkins := checkins seed @ [sixth_checkin 2 None None None]\<rparr>) 6 =
           [\<lparr>jc_checkin = sixth_checkin 2 None None None, jc_client_name = Some ''ABC Corp'',
             jc_client_address = Some ''Cyber City, Gurugram''\<rparr>]"
    by (simp add: select_checkin_by_id_def sixth_checkin_def seed_defs)
  show ?thesis
    by (simp add: post_checkin_v2_valid [OF valid_bodies(1) body_fields(1)] assigned_seed
        active_count_seed body_fields d bound_float_def i j next_rowid_seed)
qed

lemma seed_checked_in_eq:
  "seed_checked_in = seed\<lparr>checkins := checkins seed @ [sixth_checkin 2 None None None]\<rparr>"
  by (simp add: seed_checked_in_def post_checkin_v2_plain)

lemma seed_checked_in_facts:
  "active_count seed_checked_in 2 = 1"
  "assigned seed_checked_in 2 1" "\<not> assigned seed_checked_in 2 5"
  "reachable seed seed_checked_in"
  "getMostRecentActiveCheckin seed_checked_in 2 = [sixth_checkin 2 None None None]"
proof -
  show "active_count seed_checked_in 2 = 1"
    by (simp add: seed_checked_in_eq active_count_def sixth_checkin_def) (simp add: seed_defs)
  show "assigned seed_checked_in 2 1" "\<not> assigned seed_checked_in 2 5"
    using assigned_seed by (simp_all add: seed_checked_in_eq assigned_def)
  show "reachable seed seed_checked_in"
    unfolding seed_checked_in_def by (rule reachable.create_v2) (rule reachable.start)
  have "filter (\<lambda>c. ch_employee_id c = 2 \<and> ch_status c = CheckedIn) (checkins seed_checked_in) =
          [sixth_checkin 2 None None None]"
    by (simp add: seed_checked_in_eq sixth_checkin_def) (simp add: seed_defs)
  then show "getMostRecentActiveCheckin seed_checked_in 2 = [sixth_checkin 2 None None None]"
    by (simp add: getMostRecentActiveCheckin_def)
qed

lemma bearer_header_ok: "bearer_header = Some ''Bearer abc''" "take 7 ''Bearer abc'' = ''Bearer ''"
  by (simp_all add: bearer_header_def)

lemma POST_checkin_seed:
  "POST_checkin fl bearer_header body_at_client seed = (seed, Failure 500 ''Internal server error'')"
  "POST_checkin fl bearer_header body_equator seed = (seed, Failure 500 ''Internal server error'')"
  by (simp_all add: bearer_header_def POST_checkin_bearer body_fields invalid_coordinate_def)

section \<open>Checkout without an active check-in\<close>

text \<open>
  C1. Checkout by an employee who has no check-in with status checked_in must fail with
  status 404 and change nothing. Employee 2 of the seed data has three check-ins, all
  checked out. The first version of the Express checkout route selects the latest of them,
  whatever its status, and its UPDATE statement is refused by the driver: the route
  answers 500 with the message of its \<^verbatim>\<open>catch\<close> branch. The Next.js checkout route answers
  500 to every request that carries a bearer header. Both leave the store as it was.
\<close>

theorem checkout_without_active_checkin_answers_500:
  "active_count seed 2 = 0
   \<and> checkout_v1 six_pm 2 seed = (seed, Failure 500 ''Checkout failed'')
   \<and> POST_checkout bearer_header seed = (seed, Failure 500 ''Internal server error'')"
proof -
  have "filter (\<lambda>c. ch_employee_id c = 2) (checkins seed) \<noteq> []"
    by (simp add: seed_defs)
  then show ?thesis
    by (simp add: active_count_seed checkout_v1_eq POST_checkout_eq bearer_header_def)
qed

section \<open>Check-in and the assignment of the client\<close>




section \<open>Check-in with coordinates\<close>

text \<open>
  C4. A create request with coordinates, for a client that has stored coordinates, must
  be answered with status 201 and store the rounded distance. Employee 2 of the seed data
  is assigned to client 1, has no active check-in, and sends the client's own
  coordinates: the first Express version answers 500, its statement of line 63 being
  refused by the driver, and the Next.js route answers 500, its call of
  \<^verbatim>\<open>db.getActiveCheckin\<close> throwing. Nothing is stored.
\<close>

theorem checkin_with_coordinates_answers_500:
  "assigned seed 2 1 \<and> active_count seed 2 = 0
   \<and> map (\<lambda>c. (cl_latitude c, cl_longitude c)) (filter (\<lambda>c. cl_id c = 1) (clients seed)) =
       [(Some 28.4946, Some 77.0887)]
   \<and> b_latitude body_at_client = JNumber 28.4946 \<and> b_longitude body_at_client = JNumber 77.0887
   \<and> post_checkin_v1 fl six_pm 2 body_at_client seed = (seed, Failure 500 ''Check-in failed'')
   \<and> POST_checkin fl bearer_header body_at_client seed =
       (seed, Failure 500 ''Internal server error'')"
  by (simp add: assigned_seed active_count_seed client_1_seed body_fields post_checkin_v1_eq
      POST_checkin_seed)

section \<open>The effect of a checkout\<close>

text \<open>
  C8. Checkout changes nothing but \<open>checkout_time\<close> (set to the current timestamp) and
  \<open>status\<close> (set to checked_out) of the record it acts on, and it does change them.

  \<^verbatim>\<open>db.checkins.checkout\<close> of src/lib/db.ts: every check-in of the result is the old one or
  the old one with exactly these two fields set, the check-in times and the distances are
  as before and the other tables are untouched. Without a record of the given id the store
  is returned as it was, with null. Otherwise the first record \<open>c\<close> of that id, at position
  \<open>i\<close>, is replaced by \<open>c\<close> with \<open>checkout_time = now\<close> and \<open>status = checked_out\<close>, no other
  position changes, and the new record is returned.

  The second Express checkout route: the same frame. Without an active check-in of the
  employee the answer is 404 and the store is as it was. Otherwise the most recent active
  check-in \<open>c\<close> of the employee is in the table, the answer is 200, every position of the
  table holds the old record, with \<open>checkout_time = now\<close> and \<open>status = checked_out\<close> if it
  had the id of \<open>c\<close> and status checked_in and untouched if not, so the table holds \<open>c\<close> with
  these two fields set and the employee has fewer active check-ins than before; the row of
  the response has the id of \<open>c\<close> and status checked_out, and when the ids of the table are
  distinct it is \<open>c\<close> with these two fields set.
\<close>

theorem checkout_changes_only_checkout_time_and_status:
  "checkout_frame now (\<lambda>c. ch_id c = checkinId) s (fst (checkins_checkout now checkinId s))
   \<and> map ch_checkin_time (checkins (fst (checkins_checkout now checkinId s))) =
       map ch_checkin_time (checkins s)
   \<and> map ch_distance_from_client (checkins (fst (checkins_checkout now checkinId s))) =
       map ch_distance_from_client (checkins s)
   \<and> (find (\<lambda>c. ch_id c = checkinId) (checkins s) = None \<longrightarrow>
        checkins_checkout now checkinId s = (s, None))
   \<and> (\<forall>c. find (\<lambda>c. ch_id c = checkinId) (checkins s) = Some c \<longrightarrow>
        (\<exists>i < length (checkins s). checkins s ! i = c \<and> ch_id c = checkinId
           \<and> (\<forall>j < i. ch_id (checkins s ! j) \<noteq> checkinId)
           \<and> checkins_checkout now checkinId s =
               (s\<lparr>checkins :=
                    (checkins s)[i := c\<lparr>ch_checkout_time := Some now, ch_status := CheckedOut\<rparr>]\<rparr>,
                Some (c\<lparr>ch_checkout_time := Some now, ch_status := CheckedOut\<rparr>))))
   \<and> checkout_frame now
        (\<lambda>c. ch_status c = CheckedIn \<and>
             list_ex (\<lambda>a. ch_employee_id a = e \<and> ch_status a = CheckedIn \<and> ch_id a = ch_id c)
               (checkins s))
        s (fst (checkout_v2 now e s))
   \<and> map ch_checkin_time (checkins (fst (checkout_v2 now e s))) =
       map ch_checkin_time (checkins s)
   \<and> map ch_distance_from_client (checkins (fst (checkout_v2 now e s))) =
       map ch_distance_from_client (checkins s)
   \<and> (getMostRecentActiveCheckin s e = [] \<longrightarrow>
        checkout_v2 now e s = (s, Failure 404 ''No active check-in found''))
   \<and> (\<forall>c. getMostRecentActiveCheckin s e = [c] \<longrightarrow>
        c \<in> set (checkins s) \<and> ch_employee_id c = e \<and> ch_status c = CheckedIn
        \<and> (\<exists>data. snd (checkout_v2 now e s) = Success 200 (data, ''Checked out successfully'')
              \<and> (case data of
                   Inl row \<Rightarrow> ch_id (jc_checkin row) = ch_id c
                     \<and> ch_status (jc_checkin row) = CheckedOut
                     \<and> (distinct (map ch_id (checkins s)) \<longrightarrow>
                          jc_checkin row =
                            c\<lparr>ch_checkout_time := Some now, ch_status := CheckedOut\<rparr>)
                 | Inr i \<Rightarrow> False))
        \<and> length (checkins (fst (checkout_v2 now e s))) = length (checkins s)
        \<and> (\<forall>i < length (checkins s).
              checkins (fst (checkout_v2 now e s)) ! i =
                (if ch_id (checkins s ! i) = ch_id c \<and> ch_status (checkins s ! i) = CheckedIn
                 then (checkins s ! i)\<lparr>ch_checkout_time := Some now, ch_status := CheckedOut\<rparr>
                 else checkins s ! i))
        \<and> c\<lparr>ch_checkout_time := Some now, ch_status := CheckedOut\<rparr>
              \<in> set (checkins (fst (checkout_v2 now e s)))
        \<and> active_count (fst (checkout_v2 now e s)) e < active_count s e)
   \<and> (getMostRecentActiveCheckin s e = [] \<or> (\<exists>c. getMostRecentActiveCheckin s e = [c]))"
proof -
  have a: "checkout_frame now (\<lambda>c. ch_id c = checkinId) s (fst (checkins_checkout now checkinId s))"
    "map ch_checkin_time (checkins (fst (checkins_checkout now checkinId s))) =
       map ch_checkin_time (checkins s)"
    "map ch_distance_from_client (checkins (fst (checkins_checkout now checkinId s))) =
       map ch_distance_from_client (checkins s)"
    using checkins_checkout_frame [of now checkinId s]
      frame_fields(4,7) [OF checkins_checkout_frame [of now checkinId s]]
    by simp_all
  have b: "checkout_frame now
        (\<lambda>c. ch_status c = CheckedIn \<and>
             list_ex (\<lambda>a. ch_employee_id a = e \<and> ch_status a = CheckedIn \<and> ch_id a = ch_id c)
               (checkins s))
        s (fst (checkout_v2 now e s))"
    "map ch_checkin_time (checkins (fst (checkout_v2 now e s))) = map ch_checkin_time (checkins s)"
    "map ch_distance_from_client (checkins (fst (checkout_v2 now e s))) =
       map ch_distance_from_client (checkins s)"
    using checkout_v2_frame [of now e s] frame_fields(4,7) [OF checkout_v2_frame [of now e s]]
    by simp_all
  have d: "getMostRecentActiveCheckin s e = [] \<or> (\<exists>c. getMostRecentActiveCheckin s e = [c])"
    using getMostRecentActiveCheckin_cases [of s e] by blast
  note e1 = checkins_checkout_None [of checkinId s now]
    checkins_checkout_Some [of checkinId s _ now, unfolded checked_out_def]
  note e2 = checkout_v2_Nil [of s e now] checkout_v2_effect(1-3) [of s e]
    checkout_v2_effect(4-8) [of s e _ now, unfolded checked_out_def]
  show ?thesis
    by (intro conjI allI impI a b d e1 e2) assumption+
qed

theorem checkout_changes_only_checkout_time_and_status_witness:
  "find (\<lambda>c. ch_id c = 3) (checkins seed) = Some (checkins seed ! 2)
   \<and> checkins_checkout six_pm 3 seed =
       (seed\<lparr>checkins := (checkins seed)[2 := (checkins seed ! 2)\<lparr>ch_checkout_time := Some six_pm, ch_status := CheckedOut\<rparr>]\<rparr>,
        Some ((checkins seed ! 2)\<lparr>ch_checkout_time := Some six_pm, ch_status := CheckedOut\<rparr>))
   \<and> ch_checkout_time (checkins seed ! 2) = Some (at_time 19737 17 30)
   \<and> ch_checkout_time ((checkins seed ! 2)\<lparr>ch_checkout_time := Some six_pm, ch_status := CheckedOut\<rparr>) = Some six_pm
   \<and> find (\<lambda>c. ch_id c = 7) (checkins seed) = None
   \<and> checkins_checkout six_pm 7 seed = (seed, None)
   \<and> getMostRecentActiveCheckin seed 3 = []
   \<and> checkout_v2 six_pm 3 seed = (seed, Failure 404 ''No active check-in found'')
   \<and> getMostRecentActiveCheckin seed_checked_in 2 = [sixth_checkin 2 None None None]
   \<and> (sixth_checkin 2 None None None)\<lparr>ch_checkout_time := Some six_pm, ch_status := CheckedOut\<rparr>
       \<in> set (checkins (fst (checkout_v2 six_pm 2 seed_checked_in)))
   \<and> active_count (fst (checkout_v2 six_pm 2 seed_checked_in)) 2 = 0"
proof -
  have f: "find (\<lambda>c. ch_id c = 3) (checkins seed) = Some (checkins seed ! 2)"
    "find (\<lambda>c. ch_id c = 7) (checkins seed) = None"
    "ch_checkout_time (checkins seed ! 2) = Some (at_time 19737 17 30)"
    by (simp_all add: seed_defs)
  have g: "getMostRecentActiveCheckin seed 3 = []"
    by (simp add: getMostRecentActiveCheckin_Nil active_count_seed)
  note t1 = checkout_changes_only_checkout_time_and_status
    [where now = six_pm and checkinId = 3 and s = seed and e = 3]
  note t2 = checkout_changes_only_checkout_time_and_status
    [where now = six_pm and checkinId = 7 and s = seed and e = 2]
  note t3 = checkout_changes_only_checkout_time_and_status
    [where now = six_pm and checkinId = 3 and s = seed_checked_in and e = 2]
  obtain i where i: "i < length (checkins seed)" "checkins seed ! i = checkins seed ! 2"
    "\<forall>j < i. ch_id (checkins seed ! j) \<noteq> 3"
    "checkins_checkout six_pm 3 seed =
       (seed\<lparr>checkins := (checkins seed)[i := (checkins seed ! 2)\<lparr>ch_checkout_time := Some six_pm, ch_status := CheckedOut\<rparr>]\<rparr>,
        Some ((checkins seed ! 2)\<lparr>ch_checkout_time := Some six_pm, ch_status := CheckedOut\<rparr>))"
    using t1 f(1) by blast
  have "distinct (map ch_id (checkins seed))" "2 < length (checkins seed)"
    by (simp_all add: seed_defs)
  then have "i = 2"
    using i(1,2) by (metis distinct_map nth_eq_iff_index_eq)
  then have c3: "checkins_checkout six_pm 3 seed =
       (seed\<lparr>checkins := (checkins seed)[2 := (checkins seed ! 2)\<lparr>ch_checkout_time := Some six_pm, ch_status := CheckedOut\<rparr>]\<rparr>,
        Some ((checkins seed ! 2)\<lparr>ch_checkout_time := Some six_pm, ch_status := CheckedOut\<rparr>))"
    using i(4) by simp
  have c7: "checkins_checkout six_pm 7 seed = (seed, None)"
    using t2 f(2) by blast
  have n3: "checkout_v2 six_pm 3 seed = (seed, Failure 404 ''No active check-in found'')"
    using t1 g by blast
  have m: "(sixth_checkin 2 None None None)\<lparr>ch_checkout_time := Some six_pm, ch_status := CheckedOut\<rparr>
       \<in> set (checkins (fst (checkout_v2 six_pm 2 seed_checked_in)))"
    and l: "active_count (fst (checkout_v2 six_pm 2 seed_checked_in)) 2
              < active_count seed_checked_in 2"
    using t3 seed_checked_in_facts(5) by blast+
  have z: "active_count (fst (checkout_v2 six_pm 2 seed_checked_in)) 2 = 0"
    using l seed_checked_in_facts(1) by simp
  have o: "ch_checkout_time ((checkins seed ! 2)\<lparr>ch_checkout_time := Some six_pm, ch_status := CheckedOut\<rparr>) = Some six_pm"
    by simp
  show ?thesis
    using f g c3 c7 n3 m z o seed_checked_in_facts(5) by simp
qed

section \<open>The truthiness guard\<close>




section \<open>At most one active check-in\<close>




section \<open>Lemmas on the daily summary\<close>

subsection \<open>The map of employees\<close>

lemma map_set_keys:
  "map fst (map_set k v m) = (if k \<in> fst ` set m then map fst m else map fst m @ [k])"
  by (induction m) (fastforce simp: image_iff)+

lemma map_set_distinct: "distinct (map fst m) \<Longrightarrow> distinct (map fst (map_set k v m))"
  by (simp add: map_set_keys)

lemma map_set_subset: "set (map_set k v m) \<subseteq> insert (k, v) (set m)"
  by (induction m) (auto split: if_splits)

lemma map_other_keys:
  "k \<notin> fst ` set m \<Longrightarrow> map (\<lambda>(k', v'). (k', if k' = k then f v' else v')) m = m"
  by (induction m) auto

lemma map_set_present:
  "distinct (map fst m) \<Longrightarrow> k \<in> fst ` set m \<Longrightarrow>
   map_set k v m = map (\<lambda>(k', v'). (k', if k' = k then v else v')) m"
  by (induction m) (fastforce simp: map_other_keys [where f = "\<lambda>_. v"] image_iff)+

lemma map_of_present:
  "distinct (map fst m) \<Longrightarrow> (k, v) \<in> set m \<Longrightarrow> map_of m k = Some v"
  by simp

lemma init_employeeMap_fold:
  "distinct (map fst m0) \<Longrightarrow> (\<forall>(k, a) \<in> set m0. \<exists>u \<in> set us0. k = u_id u \<and> a = init_member u) \<Longrightarrow>
   set us \<subseteq> set us0 \<Longrightarrow>
   (let m = fold (\<lambda>member m. if skip member then m
                               else map_set (u_id member) (init_member member) m) us m0
    in distinct (map fst m)
       \<and> set (map fst m) = set (map fst m0) \<union> u_id ` {u \<in> set us. \<not> skip u}
       \<and> (\<forall>(k, a) \<in> set m. \<exists>u \<in> set us0. k = u_id u \<and> a = init_member u))"
proof (induction us arbitrary: m0)
  case Nil
  then show ?case by simp
next
  case (Cons u us)
  show ?case
  proof (cases "skip u")
    case True
    then show ?thesis using Cons.IH [of m0] Cons.prems by (auto simp: Let_def)
  next
    case False
    let ?m1 = "map_set (u_id u) (init_member u) m0"
    have d: "distinct (map fst ?m1)" using Cons.prems(1) by (rule map_set_distinct)
    have s: "set ?m1 \<subseteq> insert (u_id u, init_member u) (set m0)"
      by (rule map_set_subset)
    have v: "\<forall>(k, a) \<in> set ?m1. \<exists>u \<in> set us0. k = u_id u \<and> a = init_member u"
      using s Cons.prems(2,3) by fastforce
    have k: "set (map fst ?m1) = set (map fst m0) \<union> {u_id u}"
      by (auto simp: map_set_keys)
    show ?thesis
      using Cons.IH [OF d v] Cons.prems(3) False k by (auto simp: Let_def)
  qed
qed

lemma init_employeeMap_props:
  "distinct (map fst (init_employeeMap q team))"
  "set (map fst (init_employeeMap NoEmployee team)) = set (map u_id team)"
  "set (map fst (init_employeeMap (EmployeeGiven e) team)) = {e} \<inter> set (map u_id team)"
  "(k, a) \<in> set (init_employeeMap q team) \<Longrightarrow> \<exists>u \<in> set team. k = u_id u \<and> a = init_member u"
proof -
  note f = init_employeeMap_fold [of "[]" team team, simplified, unfolded Let_def]
  show "distinct (map fst (init_employeeMap q team))"
    using f [of "\<lambda>member. case q of NoEmployee \<Rightarrow> False | EmployeeNaN \<Rightarrow> True
                 | EmployeeGiven e \<Rightarrow> u_id member \<noteq> e"]
    by (simp add: init_employeeMap_def)
  show "set (map fst (init_employeeMap NoEmployee team)) = set (map u_id team)"
    using f [of "\<lambda>member. False"] by (auto simp: init_employeeMap_def)
  show "set (map fst (init_employeeMap (EmployeeGiven e) team)) = {e} \<inter> set (map u_id team)"
    using f [of "\<lambda>member. u_id member \<noteq> e"] by (auto simp: init_employeeMap_def)
  show "(k, a) \<in> set (init_employeeMap q team) \<Longrightarrow> \<exists>u \<in> set team. k = u_id u \<and> a = init_member u"
    using f [of "\<lambda>member. case q of NoEmployee \<Rightarrow> False | EmployeeNaN \<Rightarrow> True
                 | EmployeeGiven e \<Rightarrow> u_id member \<noteq> e"]
    by (auto simp: init_employeeMap_def)
qed

subsection \<open>One employee's entry\<close>

lemma running_sum_simps:
  "running_sum fl a [] = a"
  "running_sum fl a (x # xs) = running_sum fl (fl (a + x)) xs"
  "running_sum fl a (xs @ ys) = running_sum fl (running_sum fl a xs) ys"
  by (simp_all add: running_sum_def)

lemma fold_add_checkin:
  "a_employee_id (fold (add_checkin fl) rs a) = a_employee_id a"
  "a_employee_name (fold (add_checkin fl) rs a) = a_employee_name a"
  "a_employee_email (fold (add_checkin fl) rs a) = a_employee_email a"
  "a_total_checkins (fold (add_checkin fl) rs a) = a_total_checkins a + length rs"
  "a_hours_worked (fold (add_checkin fl) rs a) =
     running_sum fl (a_hours_worked a) (map (hours_of fl) rs)"
  "a_total_distance (fold (add_checkin fl) rs a) =
     running_sum fl (a_total_distance a) (distances rs)"
  "a_distance_count (fold (add_checkin fl) rs a) = a_distance_count a + length (distances rs)"
  "a_checkins (fold (add_checkin fl) rs a) = a_checkins a @ map (detail_of fl) rs"
  by (induction rs arbitrary: a;
      simp add: add_checkin_def Let_def running_sum_simps split: option.split)+

lemma finalize_fold_init:
  "finalize_employee fl (fold (add_checkin fl) rs (init_member u)) =
     \<lparr>e_employee_id = u_id u, e_employee_name = u_name u, e_employee_email = u_email u,
      e_total_checkins = length rs,
      e_hours_worked = round2 fl (running_sum fl 0 (map (hours_of fl) rs)),
      e_clients_visited = a_client_names (fold (add_checkin fl) rs (init_member u)),
      e_average_distance =
        (if distances rs = [] then None
         else Some (round2 fl (fl (running_sum fl 0 (distances rs)
                                     / real (length (distances rs)))))),
      e_checkins = map (detail_of fl) rs\<rparr>"
  by (simp add: finalize_employee_def fold_add_checkin init_member_def)

subsection \<open>The loop over the check-ins\<close>

lemma process_checkin_map:
  assumes "distinct (map fst (sa_employeeMap acc))"
  shows "sa_employeeMap (process_checkin fl r acc) =
     map (\<lambda>(k, a). (k, if k = ch_employee_id (sr_checkin r) then add_checkin fl r a else a))
       (sa_employeeMap acc)"
proof (cases "map_of (sa_employeeMap acc) (ch_employee_id (sr_checkin r))")
  case None
  then have "ch_employee_id (sr_checkin r) \<notin> fst ` set (sa_employeeMap acc)"
    by (simp add: map_of_eq_None_iff)
  then have "map (\<lambda>(k, a). (k, if k = ch_employee_id (sr_checkin r) then add_checkin fl r a else a))
       (sa_employeeMap acc) = sa_employeeMap acc"
    by (intro map_idI) force
  then show ?thesis using None by (simp add: process_checkin_def)
next
  case (Some a)
  then have m: "(ch_employee_id (sr_checkin r), a) \<in> set (sa_employeeMap acc)"
    by (rule map_of_SomeD)
  then have k: "ch_employee_id (sr_checkin r) \<in> fst ` set (sa_employeeMap acc)"
    by force
  have "map_set (ch_employee_id (sr_checkin r)) (add_checkin fl r a) (sa_employeeMap acc) =
     map (\<lambda>(k, a'). (k, if k = ch_employee_id (sr_checkin r) then add_checkin fl r a else a'))
       (sa_employeeMap acc)"
    using assms k by (rule map_set_present)
  also have "\<dots> = map (\<lambda>(k, a). (k, if k = ch_employee_id (sr_checkin r)
                                       then add_checkin fl r a else a)) (sa_employeeMap acc)"
    using assms m by (intro map_cong refl) (auto dest: eq_key_imp_eq_value)
  finally show ?thesis using Some
    by (simp add: process_checkin_def Let_def split: option.split)
qed

lemma fold_process_checkin_map:
  assumes "distinct (map fst (sa_employeeMap acc))"
  shows "sa_employeeMap (fold (process_checkin fl) rows acc) =
     map (\<lambda>(k, a). (k, fold (add_checkin fl) (rows_of k rows) a)) (sa_employeeMap acc)"
  using assms
proof (induction rows arbitrary: acc)
  case Nil
  then show ?case by (simp add: rows_of_def)
next
  case (Cons r rows)
  have m: "sa_employeeMap (process_checkin fl r acc) =
     map (\<lambda>(k, a). (k, if k = ch_employee_id (sr_checkin r) then add_checkin fl r a else a))
       (sa_employeeMap acc)"
    using Cons.prems by (rule process_checkin_map)
  then have "map fst (sa_employeeMap (process_checkin fl r acc)) = map fst (sa_employeeMap acc)"
    by (simp add: case_prod_beta comp_def)
  then have d: "distinct (map fst (sa_employeeMap (process_checkin fl r acc)))"
    using Cons.prems by simp
  show ?case
    by (simp add: Cons.IH [OF d] m rows_of_def case_prod_beta comp_def)
qed

text \<open>A row counts when its employee has an entry in the map; the keys of the map never
  change.\<close>

lemma process_checkin_keys:
  "map fst (sa_employeeMap (process_checkin fl r acc)) = map fst (sa_employeeMap acc)"
  by (auto simp: process_checkin_def Let_def map_set_keys map_of_eq_None_iff
      split: option.splits dest: map_of_SomeD intro: rev_image_eqI)

lemma process_checkin_totals:
  assumes "ch_employee_id (sr_checkin r) \<in> fst ` set (sa_employeeMap acc)"
  shows "sa_totalCheckins (process_checkin fl r acc) = sa_totalCheckins acc + 1"
    and "sa_totalHoursWorked (process_checkin fl r acc) =
           fl (sa_totalHoursWorked acc + hours_of fl r)"
    and "sa_totalDistance (process_checkin fl r acc) =
           running_sum fl (sa_totalDistance acc) (distances [r])"
    and "sa_distanceCount (process_checkin fl r acc) =
           sa_distanceCount acc + length (distances [r])"
proof -
  obtain a where "map_of (sa_employeeMap acc) (ch_employee_id (sr_checkin r)) = Some a"
    using assms by (cases "map_of (sa_employeeMap acc) (ch_employee_id (sr_checkin r))")
      (auto simp: map_of_eq_None_iff)
  then show "sa_totalCheckins (process_checkin fl r acc) = sa_totalCheckins acc + 1"
    and "sa_totalHoursWorked (process_checkin fl r acc) =
           fl (sa_totalHoursWorked acc + hours_of fl r)"
    and "sa_totalDistance (process_checkin fl r acc) =
           running_sum fl (sa_totalDistance acc) (distances [r])"
    and "sa_distanceCount (process_checkin fl r acc) =
           sa_distanceCount acc + length (distances [r])"
    by (simp_all add: process_checkin_def Let_def running_sum_simps split: option.split)
qed

lemma distances_Cons: "distances (r # rs) = distances [r] @ distances rs"
  by (simp split: option.split)

lemma fold_process_checkin_totals:
  assumes "\<forall>r \<in> set rows. ch_employee_id (sr_checkin r) \<in> fst ` set (sa_employeeMap acc)"
  shows "sa_totalCheckins (fold (process_checkin fl) rows acc) = sa_totalCheckins acc + length rows
    \<and> sa_totalHoursWorked (fold (process_checkin fl) rows acc) =
        running_sum fl (sa_totalHoursWorked acc) (map (hours_of fl) rows)
    \<and> sa_totalDistance (fold (process_checkin fl) rows acc) =
        running_sum fl (sa_totalDistance acc) (distances rows)
    \<and> sa_distanceCount (fold (process_checkin fl) rows acc) =
        sa_distanceCount acc + length (distances rows)"
  using assms
proof (induction rows arbitrary: acc)
  case Nil
  then show ?case by (simp add: running_sum_simps)
next
  case (Cons r rows)
  have k: "fst ` set (sa_employeeMap (process_checkin fl r acc)) = fst ` set (sa_employeeMap acc)"
    using process_checkin_keys [of fl r acc] by (metis set_map)
  have h: "ch_employee_id (sr_checkin r) \<in> fst ` set (sa_employeeMap acc)"
    using Cons.prems by simp
  have p: "\<forall>x \<in> set rows. ch_employee_id (sr_checkin x)
             \<in> fst ` set (sa_employeeMap (process_checkin fl r acc))"
    using Cons.prems k by simp
  show ?case
    using Cons.IH [OF p] process_checkin_totals [OF h, of fl] distances_Cons [of r rows]
    by (simp add: running_sum_simps del: distances.simps)
qed

subsection \<open>The rows of the query\<close>

lemma team_members_eq: "team_members s m = users_findByManagerId s m"
  by (simp add: team_members_def users_findByManagerId_def)

lemma select_daily_checkins_employee:
  assumes "r \<in> set (select_daily_checkins s m d f)"
  shows "ch_employee_id (sr_checkin r) \<in> u_id ` set (team_members s m)"
    and "f = Some e \<Longrightarrow> ch_employee_id (sr_checkin r) = e"
  using assms by (force simp: select_daily_checkins_def team_members_def)+

lemma select_daily_checkins_empty_team:
  assumes "team_members s m = []"
  shows "select_daily_checkins s m d f = []"
proof (rule ccontr)
  assume "select_daily_checkins s m d f \<noteq> []"
  then obtain r where "r \<in> set (select_daily_checkins s m d f)"
    by (cases "select_daily_checkins s m d f") auto
  then show False
    using select_daily_checkins_employee(1) assms by fastforce
qed

lemma rows_counted:
  assumes "q \<noteq> EmployeeNaN"
    and "r \<in> set (select_daily_checkins s m d (case q of EmployeeGiven e \<Rightarrow> Some e | _ \<Rightarrow> None))"
  shows "ch_employee_id (sr_checkin r) \<in> fst ` set (init_employeeMap q (team_members s m))"
proof (cases q)
  case NoEmployee
  then show ?thesis
    using select_daily_checkins_employee(1) [OF assms(2)] init_employeeMap_props(2) [of "team_members s m"]
    by (metis set_map)
next
  case EmployeeNaN
  then show ?thesis using assms(1) by simp
next
  case (EmployeeGiven e)
  then have "ch_employee_id (sr_checkin r) = e"
    using select_daily_checkins_employee(2) [OF assms(2)] by simp
  then have "ch_employee_id (sr_checkin r) \<in> {e} \<inter> set (map u_id (team_members s m))"
    using select_daily_checkins_employee(1) [OF assms(2)] by simp
  then show ?thesis
    using EmployeeGiven init_employeeMap_props(3) [of e "team_members s m"]
    by (metis set_map)
qed

subsection \<open>The report in closed form\<close>

lemma aggregate_breakdown:
  "ds_employee_breakdown (aggregate fl date q team rows) =
     sort_breakdown
       (map (\<lambda>(k, a). finalize_employee fl (fold (add_checkin fl) (rows_of k rows) a))
          (init_employeeMap q team))"
  by (simp add: aggregate_def Let_def fold_process_checkin_map init_employeeMap_props(1)
      split_def comp_def)

lemma breakdown_entries:
  assumes "x \<in> set (ds_employee_breakdown (aggregate fl date q team rows))"
  shows "\<exists>u \<in> set team. x = entry_of fl rows u"
proof -
  from assms obtain k a where ka: "(k, a) \<in> set (init_employeeMap q team)"
    "x = finalize_employee fl (fold (add_checkin fl) (rows_of k rows) a)"
    by (auto simp: aggregate_breakdown sort_breakdown_def)
  then obtain u where "u \<in> set team" "k = u_id u" "a = init_member u"
    using init_employeeMap_props(4) by blast
  then show ?thesis using ka by (auto simp: entry_of_def)
qed

lemma entry_of_fields:
  "e_employee_id (entry_of fl rows u) = u_id u"
  "e_employee_name (entry_of fl rows u) = u_name u"
  "e_employee_email (entry_of fl rows u) = u_email u"
  "e_total_checkins (entry_of fl rows u) = length (rows_of (u_id u) rows)"
  "e_hours_worked (entry_of fl rows u) =
     round2 fl (running_sum fl 0 (map (hours_of fl) (rows_of (u_id u) rows)))"
  "e_average_distance (entry_of fl rows u) =
     (if distances (rows_of (u_id u) rows) = [] then None
      else Some (round2 fl (fl (running_sum fl 0 (distances (rows_of (u_id u) rows))
                                  / real (length (distances (rows_of (u_id u) rows)))))))"
  "e_checkins (entry_of fl rows u) = map (detail_of fl) (rows_of (u_id u) rows)"
  by (simp_all add: entry_of_def finalize_fold_init)



section \<open>The rounded arithmetic\<close>

lemma rounding_id: "rounding 0 0 (\<lambda>x. x)"
  by (simp add: rounding_def)

lemma rounding_error: "rounding u eta fl \<Longrightarrow> \<bar>fl x - x\<bar> \<le> u * \<bar>x\<bar> + eta"
  by (simp add: rounding_def)

text \<open>Rounding to two decimals gives the double nearest to \<open>n / 100\<close> for an integer \<open>n\<close>
  within a half, and the error of the first rounding, of \<open>100 * v\<close>; the result is within
  a half hundredth, and the errors of the two roundings, of \<open>v\<close>.\<close>

lemma round2_characterisation:
  assumes "rounding u eta fl"
  shows "\<exists>n :: int. round2 fl v = fl (real_of_int n / 100)
      \<and> \<bar>real_of_int n - 100 * v\<bar> \<le> 1 / 2 + 100 * u * \<bar>v\<bar> + eta
      \<and> \<bar>round2 fl v - v\<bar> \<le> (1 + u) * (1 / 200 + u * \<bar>v\<bar> + eta / 100) + u * \<bar>v\<bar> + eta"
proof -
  define y where "y = fl (v * 100)"
  define n where "n = round y"
  define B where "B = 1 / 200 + u * \<bar>v\<bar> + eta / 100"
  have u0: "0 \<le> u" "0 \<le> eta"
    using assms by (simp_all add: rounding_def)
  have "\<bar>y - v * 100\<bar> \<le> u * \<bar>v * 100\<bar> + eta"
    unfolding y_def using assms by (rule rounding_error)
  then have e1: "\<bar>y - 100 * v\<bar> \<le> 100 * u * \<bar>v\<bar> + eta"
    by (simp add: abs_mult mult_ac)
  have e2: "\<bar>real_of_int n - y\<bar> \<le> 1 / 2"
    unfolding n_def by (rule of_int_round_abs_le)
  have n: "\<bar>real_of_int n - 100 * v\<bar> \<le> 1 / 2 + 100 * u * \<bar>v\<bar> + eta"
    using e1 e2 by linarith
  have "real_of_int n / 100 - v = (real_of_int n - 100 * v) / 100"
    by simp
  then have "\<bar>real_of_int n / 100 - v\<bar> = \<bar>real_of_int n - 100 * v\<bar> / 100"
    by (simp only: abs_divide)
  then have b: "\<bar>real_of_int n / 100 - v\<bar> \<le> B"
    using n by (simp add: B_def)
  have e3: "\<bar>fl (real_of_int n / 100) - real_of_int n / 100\<bar> \<le> u * \<bar>real_of_int n / 100\<bar> + eta"
    using assms by (rule rounding_error)
  have "\<bar>real_of_int n / 100\<bar> \<le> \<bar>v\<bar> + B"
    using b by linarith
  then have "u * \<bar>real_of_int n / 100\<bar> \<le> u * (\<bar>v\<bar> + B)"
    using u0(1) by (rule mult_left_mono)
  then have "\<bar>fl (real_of_int n / 100) - v\<bar> \<le> u * (\<bar>v\<bar> + B) + eta + B"
    using e3 b by linarith
  also have "\<dots> = (1 + u) * B + u * \<bar>v\<bar> + eta"
    by (simp add: algebra_simps)
  finally have r: "\<bar>fl (real_of_int n / 100) - v\<bar> \<le> (1 + u) * B + u * \<bar>v\<bar> + eta" .
  have "round2 fl v = fl (real_of_int n / 100)"
    by (simp add: round2_def n_def y_def)
  then show ?thesis
    using n r unfolding B_def by auto
qed

text \<open>The running sum of \<open>n\<close> numbers is within the accumulated rounding errors of the
  exact sum.\<close>

lemma running_sum_error:
  assumes "rounding u eta fl"
  shows "\<bar>running_sum fl a xs - (a + sum_list xs)\<bar>
       \<le> ((1 + u) ^ length xs - 1) * (\<bar>a\<bar> + sum_list (map abs xs))
         + eta * real (length xs) * (1 + u) ^ length xs"
proof (induction xs arbitrary: a)
  case Nil
  show ?case by (simp add: running_sum_simps)
next
  case (Cons x xs)
  define n where "n = length xs"
  define p where "p = (1 + u) ^ n"
  define T where "T = sum_list (map abs xs)"
  define S where "S = sum_list xs"
  define a' where "a' = fl (a + x)"
  define w where "w = \<bar>a + x\<bar>"
  define r where "r = running_sum fl a' xs"
  have u0: "0 \<le> u" "0 \<le> eta"
    using assms by (simp_all add: rounding_def)
  have p1: "1 \<le> p"
    unfolding p_def using u0 by (simp add: one_le_power)
  have T0: "0 \<le> T"
    unfolding T_def by (rule sum_list_nonneg) auto
  have w0: "0 \<le> w" "w \<le> \<bar>a\<bar> + \<bar>x\<bar>"
    unfolding w_def by simp_all
  have d: "\<bar>a' - (a + x)\<bar> \<le> u * w + eta"
    unfolding a'_def w_def using assms by (rule rounding_error)
  have "\<bar>a'\<bar> \<le> w + (u * w + eta)"
    using d unfolding w_def by linarith
  then have a'b: "\<bar>a'\<bar> + T \<le> (1 + u) * w + eta + T"
    by (simp add: algebra_simps)
  have IH: "\<bar>r - (a' + S)\<bar> \<le> (p - 1) * (\<bar>a'\<bar> + T) + eta * real n * p"
    using Cons.IH [of a'] by (simp add: r_def S_def T_def p_def n_def)
  have "(p - 1) * (\<bar>a'\<bar> + T) \<le> (p - 1) * ((1 + u) * w + eta + T)"
    using a'b p1 by (intro mult_left_mono) simp_all
  then have "\<bar>r - (a + x + S)\<bar>
      \<le> (p - 1) * ((1 + u) * w + eta + T) + eta * real n * p + (u * w + eta)"
    using IH d by linarith
  also have "\<dots> = (p * (1 + u) - 1) * w + (p - 1) * T + eta * (real n + 1) * p"
    by (simp add: algebra_simps)
  finally have tot: "\<bar>r - (a + x + S)\<bar>
      \<le> (p * (1 + u) - 1) * w + (p - 1) * T + eta * (real n + 1) * p" .
  have pu: "p \<le> p * (1 + u)"
    using p1 u0(1) by (simp add: mult_le_cancel_left1)
  then have q: "0 \<le> p * (1 + u) - 1"
    using p1 by linarith
  have g1: "(p * (1 + u) - 1) * w \<le> (p * (1 + u) - 1) * (\<bar>a\<bar> + \<bar>x\<bar>)"
    using w0(2) q by (rule mult_left_mono)
  have g2: "(p - 1) * T \<le> (p * (1 + u) - 1) * T"
    using pu T0 by (intro mult_right_mono) simp_all
  have "0 \<le> eta * (real n + 1)"
    using u0(2) by simp
  then have g3: "eta * (real n + 1) * p \<le> eta * (real n + 1) * (p * (1 + u))"
    using pu by (rule mult_left_mono [rotated])
  have "\<bar>r - (a + x + S)\<bar>
      \<le> (p * (1 + u) - 1) * (\<bar>a\<bar> + \<bar>x\<bar>) + (p * (1 + u) - 1) * T
        + eta * (real n + 1) * (p * (1 + u))"
    using tot g1 g2 g3 by linarith
  also have "\<dots> = ((1 + u) ^ length (x # xs) - 1) * (\<bar>a\<bar> + sum_list (map abs (x # xs)))
         + eta * real (length (x # xs)) * (1 + u) ^ length (x # xs)"
    by (simp add: p_def n_def T_def algebra_simps)
  finally show ?case
    by (simp add: r_def a'_def S_def running_sum_simps add.assoc)
qed

section \<open>The daily summary: team without members, breakdown, hours and distances\<close>

text \<open>
  C9. For a manager with no team members (and a well-formed date) the daily summary
  succeeds with a team summary of zero counts and a null average distance and with an
  empty breakdown, whatever the employee filter; the check-ins and the clients are not
  looked at, so the answer is the same for any contents of these tables.
\<close>

theorem empty_team_gives_empty_summary:
  assumes "team_members s manager = []"
  shows "daily_summary fl s manager (DateGiven date) q = Success 200 (empty_summary date)
   \<and> daily_summary fl (s\<lparr>checkins := cs, clients := cls\<rparr>) manager (DateGiven date) q =
       Success 200 (empty_summary date)
   \<and> ds_date (empty_summary date) = date
   \<and> ds_team_summary (empty_summary date) =
       \<lparr>t_total_employees = 0, t_employees_with_checkins = 0, t_total_checkins = 0,
        t_total_hours_worked = 0, t_unique_clients_visited = 0,
        t_average_distance_from_client = None\<rparr>
   \<and> ds_employee_breakdown (empty_summary date) = []"
proof -
  have "team_members (s\<lparr>checkins := cs, clients := cls\<rparr>) manager = []"
    using assms by (simp add: team_members_def)
  then show ?thesis
    using assms by (simp add: daily_summary_def empty_summary_def)
qed

theorem empty_team_gives_empty_summary_witness:
  "team_members seed 2 = []
   \<and> daily_summary (\<lambda>x. x) seed 2 (DateGiven 19737) NoEmployee =
       Success 200 (empty_summary 19737)
   \<and> daily_summary (\<lambda>x. x) (seed\<lparr>checkins := [], clients := []\<rparr>) 2 (DateGiven 19737)
       NoEmployee =
       Success 200 (empty_summary 19737)"
proof -
  have t: "team_members seed 2 = []"
    by (simp add: team_members_def seed_defs)
  show ?thesis
    using empty_team_gives_empty_summary
      [OF t, where fl = "\<lambda>x. x" and date = 19737 and q = NoEmployee and cs = "[]" and cls = "[]"]
      t
    by simp
qed


text \<open>
  C6. In a daily summary that succeeds, every number is computed in the rounded
  arithmetic \<open>fl\<close>. A check-in counts the difference of its checkout time and its check-in
  time divided by the milliseconds of an hour, one rounded division, when it has a
  checkout time, and 0 otherwise; its detail line carries this number rounded to two
  decimals. The hours of an employee's entry and of the team are the running sums of these
  numbers over their check-ins of the day, rounded to two decimals. The average distance
  of an entry and of the team is the running sum of the distances of exactly the check-ins
  that have one, divided by their number and rounded to two decimals, and null when no
  check-in has one. In an arithmetic with relative error \<open>u\<close> and absolute error \<open>eta\<close>: the
  hours of a check-in are within \<open>u\<close> and \<open>eta\<close> of the exact quotient; a running sum is within
  the accumulated errors of the exact sum; and a number \<open>v\<close> rounded to two decimals is the
  rounding of \<open>n / 100\<close> for an integer \<open>n\<close> within a half (and the error of one rounding) of
  \<open>100 * v\<close>, so it is within a half hundredth (and the errors of two roundings) of \<open>v\<close>.
\<close>

theorem summary_hours_and_average_distance:
  assumes "daily_summary fl s manager (DateGiven date) q = Success st resp"
    and "rows = select_daily_checkins s manager date
                  (case q of EmployeeGiven e \<Rightarrow> Some e | _ \<Rightarrow> None)"
    and "rounding u eta fl"
  shows "(\<forall>x \<in> set (ds_employee_breakdown resp).
        map d_hours_worked (e_checkins x) =
          map (\<lambda>r. round2 fl
                      (case ch_checkout_time (sr_checkin r) of
                         None \<Rightarrow> 0
                       | Some t \<Rightarrow>
                           fl (real_of_int (t - ch_checkin_time (sr_checkin r)) / 3600000)))
            (rows_of (e_employee_id x) rows)
        \<and> e_hours_worked x =
            round2 fl (running_sum fl 0
              (map (\<lambda>r. case ch_checkout_time (sr_checkin r) of
                           None \<Rightarrow> 0
                         | Some t \<Rightarrow>
                             fl (real_of_int (t - ch_checkin_time (sr_checkin r)) / 3600000))
                 (rows_of (e_employee_id x) rows)))
        \<and> e_average_distance x =
            (if distances (rows_of (e_employee_id x) rows) = [] then None
             else Some (round2 fl
                          (fl (running_sum fl 0 (distances (rows_of (e_employee_id x) rows))
                                 / real (length (distances (rows_of (e_employee_id x) rows))))))))
   \<and> t_total_checkins (ds_team_summary resp) = length rows
   \<and> t_total_hours_worked (ds_team_summary resp) =
       round2 fl (running_sum fl 0
         (map (\<lambda>r. case ch_checkout_time (sr_checkin r) of
                      None \<Rightarrow> 0
                    | Some t \<Rightarrow>
                        fl (real_of_int (t - ch_checkin_time (sr_checkin r)) / 3600000))
            rows))
   \<and> t_average_distance_from_client (ds_team_summary resp) =
       (if distances rows = [] then None
        else Some (round2 fl (fl (running_sum fl 0 (distances rows)
                                    / real (length (distances rows))))))
   \<and> distances rows =
       map the (filter (\<lambda>d. d \<noteq> None) (map (\<lambda>r. ch_distance_from_client (sr_checkin r)) rows))
   \<and> \<bar>fl (real_of_int (t1 - t0) / 3600000) - real_of_int (t1 - t0) / 3600000\<bar>
       \<le> u * \<bar>real_of_int (t1 - t0) / 3600000\<bar> + eta
   \<and> \<bar>running_sum fl a xs - (a + sum_list xs)\<bar>
       \<le> ((1 + u) ^ length xs - 1) * (\<bar>a\<bar> + sum_list (map abs xs))
         + eta * real (length xs) * (1 + u) ^ length xs
   \<and> (\<exists>n :: int. round2 fl v = fl (real_of_int n / 100)
        \<and> \<bar>real_of_int n - 100 * v\<bar> \<le> 1 / 2 + 100 * u * \<bar>v\<bar> + eta
        \<and> \<bar>round2 fl v - v\<bar> \<le> (1 + u) * (1 / 200 + u * \<bar>v\<bar> + eta / 100) + u * \<bar>v\<bar> + eta)"
proof -
  let ?h = "\<lambda>r. case ch_checkout_time (sr_checkin r) of
                   None \<Rightarrow> 0
                 | Some t \<Rightarrow> fl (real_of_int (t - ch_checkin_time (sr_checkin r)) / 3600000)"
  have h: "hours_of fl = ?h"
    by (rule ext) (simp add: hours_of_def split: option.split)
  have d: "distances rs =
       map the (filter (\<lambda>d. d \<noteq> None) (map (\<lambda>r. ch_distance_from_client (sr_checkin r)) rs))"
    for rs
    by (induction rs) (auto split: option.split)
  note m = rounding_error [OF assms(3), of "real_of_int (t1 - t0) / 3600000"]
    running_sum_error [OF assms(3), of a xs] round2_characterisation [OF assms(3), of v]
  have main: "(\<forall>x \<in> set (ds_employee_breakdown resp).
        map d_hours_worked (e_checkins x) =
          map (\<lambda>r. round2 fl (?h r)) (rows_of (e_employee_id x) rows)
        \<and> e_hours_worked x =
            round2 fl (running_sum fl 0 (map ?h (rows_of (e_employee_id x) rows)))
        \<and> e_average_distance x =
            (if distances (rows_of (e_employee_id x) rows) = [] then None
             else Some (round2 fl
                          (fl (running_sum fl 0 (distances (rows_of (e_employee_id x) rows))
                                 / real (length (distances (rows_of (e_employee_id x) rows))))))))
   \<and> t_total_checkins (ds_team_summary resp) = length rows
   \<and> t_total_hours_worked (ds_team_summary resp) = round2 fl (running_sum fl 0 (map ?h rows))
   \<and> t_average_distance_from_client (ds_team_summary resp) =
       (if distances rows = [] then None
        else Some (round2 fl (fl (running_sum fl 0 (distances rows)
                                    / real (length (distances rows))))))"
  proof (cases "team_members s manager = []")
    case True
    then have e: "resp = empty_summary date" "rows = []"
      using assms(1,2) by (simp_all add: daily_summary_def select_daily_checkins_empty_team)
    have "fl 0 = 0"
      using assms(3) by (simp add: rounding_def)
    then have "round2 fl 0 = 0"
      by (simp add: round2_def)
    then show ?thesis
      by (simp add: e empty_summary_def running_sum_simps)
  next
    case False
    let ?team = "team_members s manager"
    have q: "q \<noteq> EmployeeNaN"
      using assms(1) False by (auto simp: daily_summary_def)
    then have resp: "resp = aggregate fl date q ?team rows"
      using assms(1,2) False by (simp add: daily_summary_def)
    let ?acc0 = "\<lparr>sa_employeeMap = init_employeeMap q ?team, sa_totalCheckins = 0,
                   sa_totalHoursWorked = 0, sa_uniqueClients = [], sa_totalDistance = 0,
                   sa_distanceCount = 0\<rparr>"
    have "\<forall>r \<in> set rows. ch_employee_id (sr_checkin r) \<in> fst ` set (sa_employeeMap ?acc0)"
      using rows_counted [OF q] assms(2) by simp
    note t = fold_process_checkin_totals [OF this, of fl]
    have team: "t_total_checkins (ds_team_summary resp) = length rows"
      "t_total_hours_worked (ds_team_summary resp) = round2 fl (running_sum fl 0 (map ?h rows))"
      "t_average_distance_from_client (ds_team_summary resp) =
         (if distances rows = [] then None
          else Some (round2 fl (fl (running_sum fl 0 (distances rows)
                                      / real (length (distances rows))))))"
      using t by (simp_all add: resp aggregate_def Let_def h)
    have x: "map d_hours_worked (e_checkins x) =
          map (\<lambda>r. round2 fl (?h r)) (rows_of (e_employee_id x) rows)
        \<and> e_hours_worked x =
            round2 fl (running_sum fl 0 (map ?h (rows_of (e_employee_id x) rows)))
        \<and> e_average_distance x =
            (if distances (rows_of (e_employee_id x) rows) = [] then None
             else Some (round2 fl
                          (fl (running_sum fl 0 (distances (rows_of (e_employee_id x) rows))
                                 / real (length (distances (rows_of (e_employee_id x) rows)))))))"
      if xin: "x \<in> set (ds_employee_breakdown resp)" for x
    proof -
      obtain u where "u \<in> set ?team" "x = entry_of fl rows u"
        using breakdown_entries xin resp by blast
      then show ?thesis
        by (simp add: entry_of_fields detail_of_def comp_def h)
    qed
    show ?thesis
      using team x by blast
  qed
  show ?thesis
    by (intro conjI main [THEN conjunct1] main [THEN conjunct2, THEN conjunct1]
        main [THEN conjunct2, THEN conjunct2, THEN conjunct1]
        main [THEN conjunct2, THEN conjunct2, THEN conjunct2] d m)
qed

subsection \<open>The report on the seed data\<close>

lemmas summary_defs =
  daily_summary_def team_members_def aggregate_def select_daily_checkins_def date_of_def
  at_time_def init_employeeMap_def init_member_def process_checkin_def add_checkin_def
  finalize_employee_def sort_breakdown_def hours_of_def detail_of_def set_add_def

lemma seed_report_success:
  "daily_summary (\<lambda>x. x) seed 1 (DateGiven 19737) NoEmployee = Success 200 seed_report"
proof -
  have "team_members seed 1 \<noteq> []"
    by (simp add: team_members_def seed_defs)
  then have "\<exists>x. daily_summary (\<lambda>x. x) seed 1 (DateGiven 19737) NoEmployee = Success 200 x"
    by (simp add: daily_summary_def Let_def)
  then show ?thesis
    by (auto simp: seed_report_def)
qed


lemma seed_report_hours:
  "map e_hours_worked (ds_employee_breakdown seed_report) = [6.75, 5.5, 0]"
  "map e_average_distance (ds_employee_breakdown seed_report) = [Some 0.03, Some 0.03, None]"
  "t_total_hours_worked (ds_team_summary seed_report) = 12.25"
  "t_average_distance_from_client (ds_team_summary seed_report) = Some 0.03"
  by (simp_all add: seed_report_def summary_defs seed_defs Let_def round2_def round_def)


theorem summary_hours_and_average_distance_witness:
  "rounding 0 0 (\<lambda>x. x)
   \<and> daily_summary (\<lambda>x. x) seed 1 (DateGiven 19737) NoEmployee = Success 200 seed_report
   \<and> map e_hours_worked (ds_employee_breakdown seed_report) = [6.75, 5.5, 0]
   \<and> map e_average_distance (ds_employee_breakdown seed_report) = [Some 0.03, Some 0.03, None]
   \<and> t_total_checkins (ds_team_summary seed_report) = 5
   \<and> length (select_daily_checkins seed 1 19737 None) = 5
   \<and> t_total_hours_worked (ds_team_summary seed_report) = 12.25
   \<and> t_average_distance_from_client (ds_team_summary seed_report) = Some 0.03
   \<and> running_sum (\<lambda>x. x) 0 [0.05, 0.02, 0.03] = 0.1
   \<and> \<bar>round2 (\<lambda>x. x) (1 / 3) - 1 / 3\<bar> \<le> 1 / 200"
proof -
  have l: "length (select_daily_checkins seed 1 19737 None) = 5"
    by (simp add: select_daily_checkins_def seed_defs date_of_def at_time_def)
  note t = summary_hours_and_average_distance [OF seed_report_success refl rounding_id]
  have "t_total_checkins (ds_team_summary seed_report) = 5"
    using t l by simp
  moreover have "running_sum (\<lambda>x. x) 0 [0.05, 0.02, 0.03] = 0.1"
    using t [where a = 0 and xs = "[0.05, 0.02, 0.03]"] by simp
  moreover have "\<bar>round2 (\<lambda>x. x) (1 / 3) - 1 / 3\<bar> \<le> 1 / 200"
    using t [where v = "1 / 3"] by auto
  ultimately show ?thesis
    using seed_report_success seed_report_hours l rounding_id by simp
qed

end
